theory Spec2Isabelle
  imports Main "HOL-Library.Word" "HOL-Library.Sublist" "HOL-Library.Multiset"
begin

section \<open>JavaScript values used by the server\<close>

text \<open>
  A JavaScript string is a sequence of 16-bit code units. String literals of the source are
  written \<open>js ''...''\<close>.
\<close>

type_synonym jsstring = "16 word list"

definition js :: "string \<Rightarrow> jsstring" where
  "js s = map of_char s"

text \<open>
  The values that can stand where TypeScript says \<open>string\<close> or \<open>any\<close> at run time
  (a field of a parsed JSON document, a cell of a result row). \<open>JObject\<close> is any object
  or array; it carries the text that its conversion to a string gives.
\<close>

datatype js_value =
    JUndefined
  | JNull
  | JBool bool
  | JNumber int
  | JString jsstring
  | JObject jsstring

text \<open>What a \<open>throw\<close> carries: an \<open>Error\<close> object with its message, zod's \<open>ZodError\<close>
  (also an \<open>Error\<close>), or a value that is not an \<open>Error\<close> instance, such as a string.\<close>

datatype thrown =
    Error jsstring
  | ZodError jsstring
  | NonError js_value

text \<open>\<open>error instanceof Error ? error.message : fallback\<close>\<close>

fun messageOr :: "thrown \<Rightarrow> jsstring \<Rightarrow> jsstring" where
  "messageOr (Error m) fallback = m"
| "messageOr (ZodError m) fallback = m"
| "messageOr (NonError v) fallback = fallback"

text \<open>An \<open>async\<close> function returns a promise. The one async function modelled with its
  promise, \<open>validateSQLQuery\<close>, has no \<open>await\<close> in its body, so its promise is settled
  when the call returns.\<close>

datatype 'a Promise = Resolved 'a | Rejected thrown

text \<open>
  The built-in functions of the JavaScript runtime that the source calls and whose tables
  (Unicode case mapping, number parsing) are not part of the repository. They are parameters
  of the model; \<open>ascii_runtime\<close> below is the instance for ASCII text.
  \<open>parseInt\<close> yields an integer, \<open>NaN\<close> or an infinity.
\<close>

datatype jsnumber = NaN | PosInfinity | NegInfinity | Num int

record runtime =
  toUpperCase :: "jsstring \<Rightarrow> jsstring"
  toLowerCase :: "jsstring \<Rightarrow> jsstring"
  parseInt :: "jsstring \<Rightarrow> jsnumber"

definition asciiUpper :: "16 word \<Rightarrow> 16 word" where
  "asciiUpper c = (if 97 \<le> c \<and> c \<le> 122 then c - 32 else c)"

definition asciiLower :: "16 word \<Rightarrow> 16 word" where
  "asciiLower c = (if 65 \<le> c \<and> c \<le> 90 then c + 32 else c)"

text \<open>White space and line terminators of ECMAScript, as code units.\<close>

definition isWhiteSpace :: "16 word \<Rightarrow> bool" where
  "isWhiteSpace c \<longleftrightarrow>
     c = 0x09 \<or> c = 0x0A \<or> c = 0x0B \<or> c = 0x0C \<or> c = 0x0D \<or> c = 0x20 \<or> c = 0xA0 \<or>
     c = 0x1680 \<or> (0x2000 \<le> c \<and> c \<le> 0x200A) \<or> c = 0x2028 \<or> c = 0x2029 \<or>
     c = 0x202F \<or> c = 0x205F \<or> c = 0x3000 \<or> c = 0xFEFF"

subsection \<open>String.prototype.trim, startsWith and includes\<close>

definition trim :: "jsstring \<Rightarrow> jsstring" where
  "trim s = rev (dropWhile isWhiteSpace (rev (dropWhile isWhiteSpace s)))"

fun startsWith :: "jsstring \<Rightarrow> jsstring \<Rightarrow> bool" where
  "startsWith s [] = True"
| "startsWith [] (k # ks) = False"
| "startsWith (c # s) (k # ks) = (c = k \<and> startsWith s ks)"

fun str_includes :: "jsstring \<Rightarrow> jsstring \<Rightarrow> bool" where
  "str_includes [] k = (k = [])"
| "str_includes (c # s) k = (startsWith (c # s) k \<or> str_includes s k)"

text \<open>
  \<open>parseInt(string)\<close> with no radix, on ASCII text: leading white space is skipped, a sign
  is read, the prefix \<open>0x\<close> or \<open>0X\<close> switches to radix 16, and the longest run of digits
  of the radix is the value; \<open>NaN\<close> when that run is empty. The value is then rounded to
  the nearest double (ties to even), which changes it only from \<open>2^53\<close> on.
\<close>

definition digitOf :: "16 word \<Rightarrow> nat option" where
  "digitOf c =
     (if 48 \<le> c \<and> c \<le> 57 then Some (unat c - 48)
      else if 97 \<le> c \<and> c \<le> 102 then Some (unat c - 87)
      else if 65 \<le> c \<and> c \<le> 70 then Some (unat c - 55)
      else None)"

definition isDigit :: "nat \<Rightarrow> 16 word \<Rightarrow> bool" where
  "isDigit radix c \<longleftrightarrow> (case digitOf c of None \<Rightarrow> False | Some d \<Rightarrow> d < radix)"

definition digitsValue :: "nat \<Rightarrow> jsstring \<Rightarrow> nat" where
  "digitsValue radix ds =
     fold (\<lambda>c acc. radix * acc + (case digitOf c of None \<Rightarrow> 0 | Some d \<Rightarrow> d)) ds 0"

fun bitLength :: "nat \<Rightarrow> nat" where
  "bitLength n = (if n = 0 then 0 else Suc (bitLength (n div 2)))"

declare bitLength.simps [simp del]

definition toDouble :: "bool \<Rightarrow> nat \<Rightarrow> jsnumber" where
  "toDouble negative n =
     (let shift = bitLength n - 53;
          q = n div 2 ^ shift;
          r = n mod 2 ^ shift;
          up = (shift > 0 \<and> (2 * r > 2 ^ shift \<or> (2 * r = 2 ^ shift \<and> odd q)));
          rounded = (if up then q + 1 else q) * 2 ^ shift
      in if rounded \<ge> 2 ^ 1024 then (if negative then NegInfinity else PosInfinity)
         else Num (if negative then - int rounded else int rounded))"

definition asciiParseInt :: "jsstring \<Rightarrow> jsnumber" where
  "asciiParseInt s =
     (let t = dropWhile isWhiteSpace s;
          negative = (t \<noteq> [] \<and> hd t = 45);
          u = (if t \<noteq> [] \<and> (hd t = 45 \<or> hd t = 43) then tl t else t);
          hex = (startsWith u [48, 120] \<or> startsWith u [48, 88]);
          radix = (if hex then 16 else 10);
          ds = takeWhile (isDigit radix) (if hex then drop 2 u else u)
      in if ds = [] then NaN else toDouble negative (digitsValue radix ds))"

definition ascii_runtime :: runtime where
  "ascii_runtime =
     \<lparr> toUpperCase = map asciiUpper, toLowerCase = map asciiLower, parseInt = asciiParseInt \<rparr>"

subsection \<open>Numbers in template literals\<close>

text \<open>\<open>`${n}`\<close> for an integer \<open>n\<close>: its decimal digits, with a minus sign when negative
  (the elapsed times printed below stay far under the 21 digits where JavaScript switches to
  exponent notation).\<close>

function natToString :: "nat \<Rightarrow> jsstring" where
  "natToString n =
     (if n < 10 then [of_nat (48 + n)]
      else natToString (n div 10) @ [of_nat (48 + n mod 10)])"
  by pat_completeness auto
termination
  by (relation "measure id") auto

declare natToString.simps [simp del]

definition numberToString :: "int \<Rightarrow> jsstring" where
  "numberToString i = (if i < 0 then 45 # natToString (nat (- i)) else natToString (nat i))"

subsection \<open>Map\<close>

text \<open>A JavaScript \<open>Map\<close> keeps its entries in insertion order; \<open>set\<close> on a key that is
  present replaces the value where it stands.\<close>

type_synonym ('k, 'v) Map = "('k \<times> 'v) list"

fun Map_set :: "'k \<Rightarrow> 'v \<Rightarrow> ('k, 'v) Map \<Rightarrow> ('k, 'v) Map" where
  "Map_set k v [] = [(k, v)]"
| "Map_set k v ((k', v') # m) =
     (if k' = k then (k, v) # m else (k', v') # Map_set k v m)"

definition Map_get :: "('k, 'v) Map \<Rightarrow> 'k \<Rightarrow> 'v option" where
  "Map_get m k = map_of m k"

definition Map_values :: "('k, 'v) Map \<Rightarrow> 'v list" where
  "Map_values m = map snd m"

section \<open>The SQL safety validator (src/server/services/openai.ts, validateSQLQuery)\<close>

definition dangerousKeywords :: "jsstring list" where
  "dangerousKeywords =
     [js ''INSERT'', js ''UPDATE'', js ''DELETE'', js ''DROP'', js ''CREATE'', js ''ALTER'',
      js ''TRUNCATE'', js ''EXEC'', js ''EXECUTE'', js ''SP_'', js ''XP_'']"

text \<open>The \<open>for\<close> loop over the keywords: the first keyword found returns false.\<close>

fun noDangerousKeyword :: "jsstring \<Rightarrow> jsstring list \<Rightarrow> bool" where
  "noDangerousKeyword upperSQL [] = True"
| "noDangerousKeyword upperSQL (keyword # rest) =
     (if str_includes upperSQL keyword then False else noDangerousKeyword upperSQL rest)"

text \<open>
  The body of the \<open>try\<close> block. \<open>sql.toUpperCase()\<close> on a value that is not a string
  throws a \<open>TypeError\<close> (the property is missing, or the receiver is undefined or null).
\<close>

definition validateSQLQuery_try :: "runtime \<Rightarrow> js_value \<Rightarrow> thrown + bool" where
  "validateSQLQuery_try rt sql =
     (case sql of
        JString s \<Rightarrow>
          (let upperSQL = trim (toUpperCase rt s) in
           if \<not> startsWith upperSQL (js ''SELECT'') then Inr False
           else Inr (noDangerousKeyword upperSQL dangerousKeywords))
      | _ \<Rightarrow> Inl (Error (js ''sql.toUpperCase is not a function'')))"

text \<open>\<open>try { ... } catch { return false; }\<close> inside an \<open>async\<close> function: the promise it
  returns always resolves.\<close>

definition validateSQLQuery :: "runtime \<Rightarrow> js_value \<Rightarrow> bool Promise" where
  "validateSQLQuery rt sql =
     (case validateSQLQuery_try rt sql of
        Inr b \<Rightarrow> Resolved b
      | Inl e \<Rightarrow> Resolved False)"

text \<open>
  The validator in the words of the specification: the uppercased, trimmed text begins with
  \<open>SELECT\<close>, and the uppercased text contains none of the denylisted substrings.
\<close>

definition isSafe_spec :: "runtime \<Rightarrow> jsstring \<Rightarrow> bool" where
  "isSafe_spec rt sql \<longleftrightarrow>
     startsWith (trim (toUpperCase rt sql)) (js ''SELECT'') \<and>
     \<not> list_ex (str_includes (toUpperCase rt sql)) dangerousKeywords"

section \<open>Shared schema (src/unnamed/part_000, imported as @shared/schema)\<close>

text \<open>A result row maps column names to values; \<open>jsonb\<close> results are a list of rows.\<close>

type_synonym row = "(jsstring \<times> js_value) list"
type_synonym recordset = "row list"

text \<open>
  Rows of \<open>database_configs\<close>. \<open>isActive\<close> is \<open>boolean | null\<close>; \<open>None\<close> stands for null
  and undefined, which the code never tells apart. \<open>createdAt\<close> is the time value of the
  \<open>Date\<close>, in milliseconds.
\<close>

record DatabaseConfig =
  cfg_id :: nat
  cfg_name :: jsstring
  cfg_type :: jsstring
  cfg_connectionString :: jsstring
  cfg_isActive :: "bool option"
  cfg_createdAt :: int

record InsertDatabaseConfig =
  new_name :: jsstring
  new_type :: jsstring
  new_connectionString :: jsstring
  new_isActive :: "bool option"

text \<open>\<open>Partial<InsertDatabaseConfig>\<close>: \<open>None\<close> is a property that is absent. For
  \<open>isActive\<close>, \<open>Some None\<close> is a property present with null or undefined.\<close>

record PartialInsertDatabaseConfig =
  upd_name :: "jsstring option"
  upd_type :: "jsstring option"
  upd_connectionString :: "jsstring option"
  upd_isActive :: "bool option option"

record QueryHistory =
  qh_id :: nat
  qh_naturalQuery :: jsstring
  qh_generatedSql :: jsstring
  qh_executionTime :: "int option"
  qh_rowCount :: "nat option"
  qh_status :: jsstring
  qh_errorMessage :: "jsstring option"
  qh_results :: "recordset option"
  qh_createdAt :: int

record InsertQueryHistory =
  ins_naturalQuery :: jsstring
  ins_generatedSql :: jsstring
  ins_executionTime :: "int option"
  ins_rowCount :: "nat option"
  ins_status :: jsstring
  ins_errorMessage :: "jsstring option"
  ins_results :: "recordset option"

text \<open>\<open>naturalLanguageQuerySchema.parse(req.body)\<close>: \<open>query\<close> must be a string of 1 to 500
  code units. \<open>None\<close> is a body without a string \<open>query\<close>. The \<open>ZodError\<close> carries the
  code of the issue.\<close>

definition naturalLanguageQuerySchema_parse :: "jsstring option \<Rightarrow> thrown + jsstring" where
  "naturalLanguageQuerySchema_parse query =
     (case query of
        None \<Rightarrow> Inl (ZodError (js ''invalid_type''))
      | Some q \<Rightarrow>
          if length q < 1 then Inl (ZodError (js ''too_small''))
          else if length q > 500 then Inl (ZodError (js ''too_big''))
          else Inr q)"

section \<open>The in-memory store (src/unnamed/part_002, imported as ./storage)\<close>

record MemStorage =
  databaseConfigs :: "(nat, DatabaseConfig) Map"
  queryHistory :: "(nat, QueryHistory) Map"
  currentConfigId :: nat
  currentHistoryId :: nat

text \<open>The constructor. \<open>DATABASE_URL\<close> is the environment variable (an empty string is
  falsy), \<open>now\<close> is \<open>new Date()\<close>.\<close>

definition new_MemStorage :: "jsstring option \<Rightarrow> int \<Rightarrow> MemStorage" where
  "new_MemStorage DATABASE_URL now =
     \<lparr> databaseConfigs =
         Map_set 1
           \<lparr> cfg_id = 1,
             cfg_name = js ''Default PostgreSQL'',
             cfg_type = js ''postgresql'',
             cfg_connectionString =
               (case DATABASE_URL of
                  None \<Rightarrow> js ''postgresql://localhost:5432/sample''
                | Some url \<Rightarrow> if url = [] then js ''postgresql://localhost:5432/sample'' else url),
             cfg_isActive = Some True,
             cfg_createdAt = now \<rparr> [],
       queryHistory = [],
       currentConfigId = 2,
       currentHistoryId = 1 \<rparr>"

definition getDatabaseConfig :: "MemStorage \<Rightarrow> nat \<Rightarrow> DatabaseConfig option" where
  "getDatabaseConfig s i = Map_get (databaseConfigs s) i"

definition getActiveDatabaseConfig :: "MemStorage \<Rightarrow> DatabaseConfig option" where
  "getActiveDatabaseConfig s =
     find (\<lambda>config. cfg_isActive config = Some True) (Map_values (databaseConfigs s))"

text \<open>The loops that write \<open>existingConfig.isActive = false\<close> into the stored objects.\<close>

definition forEachValue :: "('v \<Rightarrow> 'v) \<Rightarrow> ('k, 'v) Map \<Rightarrow> ('k, 'v) Map" where
  "forEachValue f m = map (\<lambda>(k, v). (k, f v)) m"

definition createDatabaseConfig ::
  "MemStorage \<Rightarrow> InsertDatabaseConfig \<Rightarrow> int \<Rightarrow> DatabaseConfig \<times> MemStorage" where
  "createDatabaseConfig s config now =
     (let i = currentConfigId s;
          newConfig =
            \<lparr> cfg_id = i,
              cfg_name = new_name config,
              cfg_type = new_type config,
              cfg_connectionString = new_connectionString config,
              cfg_isActive = Some (case new_isActive config of None \<Rightarrow> False | Some b \<Rightarrow> b),
              cfg_createdAt = now \<rparr>;
          configs =
            (if new_isActive config = Some True
             then forEachValue (\<lambda>existingConfig. existingConfig\<lparr>cfg_isActive := Some False\<rparr>)
                    (databaseConfigs s)
             else databaseConfigs s)
      in (newConfig,
          s\<lparr> currentConfigId := i + 1, databaseConfigs := Map_set i newConfig configs \<rparr>))"

definition updateDatabaseConfig ::
  "MemStorage \<Rightarrow> nat \<Rightarrow> PartialInsertDatabaseConfig \<Rightarrow> DatabaseConfig option \<times> MemStorage" where
  "updateDatabaseConfig s i config =
     (case Map_get (databaseConfigs s) i of
        None \<Rightarrow> (None, s)
      | Some existing \<Rightarrow>
          (let updated =
                 existing
                 \<lparr> cfg_name := (case upd_name config of None \<Rightarrow> cfg_name existing | Some n \<Rightarrow> n),
                   cfg_type := (case upd_type config of None \<Rightarrow> cfg_type existing | Some t \<Rightarrow> t),
                   cfg_connectionString :=
                     (case upd_connectionString config of
                        None \<Rightarrow> cfg_connectionString existing | Some c \<Rightarrow> c),
                   cfg_isActive :=
                     (case upd_isActive config of None \<Rightarrow> cfg_isActive existing | Some a \<Rightarrow> a) \<rparr>;
               configs =
                 (if upd_isActive config = Some (Some True)
                  then forEachValue
                         (\<lambda>existingConfig.
                            if cfg_id existingConfig \<noteq> i
                            then existingConfig\<lparr>cfg_isActive := Some False\<rparr>
                            else existingConfig)
                         (databaseConfigs s)
                  else databaseConfigs s)
           in (Some updated, s\<lparr> databaseConfigs := Map_set i updated configs \<rparr>)))"

text \<open>
  \<open>Array.prototype.slice(0, end)\<close> for an \<open>end\<close> that is a number: \<open>NaN\<close> counts as 0, a
  negative \<open>end\<close> counts from the end of the array.
\<close>

definition slice0 :: "'a list \<Rightarrow> jsnumber \<Rightarrow> 'a list" where
  "slice0 xs end =
     (case end of
        NaN \<Rightarrow> []
      | NegInfinity \<Rightarrow> []
      | PosInfinity \<Rightarrow> xs
      | Num n \<Rightarrow>
          if n < 0 then take (nat (max (int (length xs) + n) 0)) xs
          else take (nat (min n (int (length xs)))) xs)"

text \<open>
  \<open>sort((a, b) => b.createdAt - a.createdAt)\<close> is a stable sort by decreasing time of
  creation. \<open>limit\<close> is \<open>None\<close> when the argument is left out.
\<close>

definition getQueryHistory :: "MemStorage \<Rightarrow> jsnumber option \<Rightarrow> QueryHistory list" where
  "getQueryHistory s limit =
     (let lim = (case limit of None \<Rightarrow> Num 50 | Some n \<Rightarrow> n)
      in slice0 (sort_key (\<lambda>e. - qh_createdAt e) (Map_values (queryHistory s))) lim)"

definition createQueryHistoryEntry ::
  "MemStorage \<Rightarrow> InsertQueryHistory \<Rightarrow> int \<Rightarrow> QueryHistory \<times> MemStorage" where
  "createQueryHistoryEntry s entry now =
     (let i = currentHistoryId s;
          newEntry =
            \<lparr> qh_id = i,
              qh_naturalQuery = ins_naturalQuery entry,
              qh_generatedSql = ins_generatedSql entry,
              qh_executionTime = ins_executionTime entry,
              qh_rowCount = ins_rowCount entry,
              qh_status = ins_status entry,
              qh_errorMessage = ins_errorMessage entry,
              qh_results = ins_results entry,
              qh_createdAt = now \<rparr>
      in (newEntry,
          s\<lparr> currentHistoryId := i + 1, queryHistory := Map_set i newEntry (queryHistory s) \<rparr>))"

definition clearQueryHistory :: "MemStorage \<Rightarrow> MemStorage" where
  "clearQueryHistory s = s\<lparr> queryHistory := [] \<rparr>"

text \<open>The stores that the operations above can produce from a fresh one.\<close>

inductive reachable :: "MemStorage \<Rightarrow> bool" where
  fresh: "reachable (new_MemStorage url now)"
| created: "reachable s \<Longrightarrow> reachable (snd (createDatabaseConfig s config now))"
| updated: "reachable s \<Longrightarrow> reachable (snd (updateDatabaseConfig s i partial))"
| logged: "reachable s \<Longrightarrow> reachable (snd (createQueryHistoryEntry s entry now))"
| cleared: "reachable s \<Longrightarrow> reachable (clearQueryHistory s)"

text \<open>Every stored configuration sits under its own id, and no id is stored twice.\<close>

definition keyed :: "(nat, DatabaseConfig) Map \<Rightarrow> bool" where
  "keyed m \<longleftrightarrow> distinct (map fst m) \<and> list_all (\<lambda>(k, c). cfg_id c = k) m"

definition keyed_by_id :: "MemStorage \<Rightarrow> bool" where
  "keyed_by_id s \<longleftrightarrow> keyed (databaseConfigs s)"

definition activeConfigs :: "MemStorage \<Rightarrow> DatabaseConfig list" where
  "activeConfigs s =
     filter (\<lambda>config. cfg_isActive config = Some True) (Map_values (databaseConfigs s))"

section \<open>The world outside the server\<close>

text \<open>What the \<open>mssql\<close> and \<open>pg\<close> drivers hand back for a statement.\<close>

record mssql_result =
  mssql_recordset :: "recordset option"
  mssql_rowsAffected :: "int list option"

record pg_result =
  pg_rows :: "recordset option"
  pg_rowCount :: "int option"

record sqlconfig =
  server :: jsstring
  database :: jsstring
  user :: "jsstring option"
  password :: "jsstring option"
  encrypt :: bool
  trustServerCertificate :: bool
  requestTimeout :: nat
  connectionTimeout :: nat

text \<open>The part of \<open>SQLGenerationResult\<close> that the routes read.\<close>

record SQLGenerationResult =
  sql :: jsstring
  explanation :: jsstring

text \<open>
  The collaborators of one request: the clock (\<open>dateNow k\<close> is the \<open>k\<close>-th reading of
  \<open>Date.now()\<close> or \<open>new Date()\<close>), the SQL generator, and the two database drivers
  (\<open>mssql_connect\<close> is \<open>pool.connect()\<close>, \<open>None\<close> when it succeeds; \<open>pg_query\<close> is
  given the connection string of the pool as the constructor received it).
\<close>

record env =
  rt :: runtime
  dateNow :: "nat \<Rightarrow> int"
  generateSQLFromNaturalLanguage ::
    "jsstring \<Rightarrow> jsstring \<Rightarrow> jsstring \<Rightarrow> thrown + SQLGenerationResult"
  mssql_connect :: "sqlconfig \<Rightarrow> thrown option"
  mssql_query :: "sqlconfig \<Rightarrow> jsstring \<Rightarrow> thrown + mssql_result"
  pg_query :: "js_value \<Rightarrow> jsstring \<Rightarrow> thrown + pg_result"

text \<open>What a request does besides answering: calls on connection objects (each object is
  numbered when it is constructed), statements sent to a driver, calls of the generator.\<close>

datatype event =
    CreateConnection nat
  | ExecuteQuery nat jsstring
  | TestConnection nat
  | PoolQuery nat jsstring
  | Close nat
  | Generate jsstring jsstring jsstring

record state =
  storage :: MemStorage
  clockReads :: nat
  handles :: nat
  events :: "event list"

definition tick :: "env \<Rightarrow> state \<Rightarrow> int \<times> state" where
  "tick e st = (dateNow e (clockReads st), st\<lparr> clockReads := Suc (clockReads st) \<rparr>)"

definition log :: "event \<Rightarrow> state \<Rightarrow> state" where
  "log ev st = st\<lparr> events := events st @ [ev] \<rparr>"

section \<open>Database connections (src/server/services/openai.ts from line 101, imported as
  ./services/database)\<close>

record QueryResult =
  recordset :: recordset
  rowsAffected :: "int list"
  executionTime :: int

text \<open>\<open>pool\<close> tells whether \<open>this.pool\<close> holds a pool object.\<close>

record SQLServerConnection =
  ss_handle :: nat
  ss_pool :: bool
  ss_config :: sqlconfig

record PostgreSQLConnection =
  pg_handle :: nat
  pg_pool :: bool
  pg_connectionString :: js_value

datatype DatabaseConnection =
    SQLServer SQLServerConnection
  | PostgreSQL PostgreSQLConnection

text \<open>\<open>connectionString.match(/KEY([^;]+)/)\<close>, group 1: the leftmost place where \<open>KEY\<close>
  is followed by a character other than the semicolon (code unit 59).\<close>

fun matchGroup :: "jsstring \<Rightarrow> jsstring \<Rightarrow> jsstring option" where
  "matchGroup key [] = None"
| "matchGroup key (c # s) =
     (if startsWith (c # s) key \<and> takeWhile (\<lambda>x. x \<noteq> 59) (drop (length key) (c # s)) \<noteq> []
      then Some (takeWhile (\<lambda>x. x \<noteq> 59) (drop (length key) (c # s)))
      else matchGroup key s)"

definition new_SQLServerConnection :: "nat \<Rightarrow> jsstring \<Rightarrow> SQLServerConnection" where
  "new_SQLServerConnection h connectionString =
     (let serverMatch = matchGroup (js ''Server='') connectionString;
          databaseMatch = matchGroup (js ''Database='') connectionString;
          userMatch = matchGroup (js ''User Id='') connectionString;
          passwordMatch = matchGroup (js ''Password='') connectionString;
          integrated = str_includes connectionString (js ''Integrated Security=true'')
      in \<lparr> ss_handle = h,
           ss_pool = False,
           ss_config =
             \<lparr> server = (case serverMatch of None \<Rightarrow> js ''localhost'' | Some m \<Rightarrow> m),
               database = (case databaseMatch of None \<Rightarrow> [] | Some m \<Rightarrow> m),
               user = (if integrated then None else userMatch),
               password = (if integrated then None else passwordMatch),
               encrypt = True,
               trustServerCertificate = True,
               requestTimeout = 30000,
               connectionTimeout = 30000 \<rparr> \<rparr>)"

text \<open>The constructor of the PostgreSQL connection stores its argument as it is.\<close>

definition new_PostgreSQLConnection :: "nat \<Rightarrow> js_value \<Rightarrow> PostgreSQLConnection" where
  "new_PostgreSQLConnection h connectionString =
     \<lparr> pg_handle = h, pg_pool = False, pg_connectionString = connectionString \<rparr>"

text \<open>\<open>getPool\<close> of the SQL Server connection stores the new pool before it connects, so a
  failed \<open>connect()\<close> leaves \<open>this.pool\<close> set.\<close>

definition SQLServer_getPool ::
  "env \<Rightarrow> SQLServerConnection \<Rightarrow> (thrown + unit) \<times> SQLServerConnection" where
  "SQLServer_getPool e c =
     (if \<not> ss_pool c
      then (case mssql_connect e (ss_config c) of
              Some error \<Rightarrow> (Inl error, c\<lparr> ss_pool := True \<rparr>)
            | None \<Rightarrow> (Inr (), c\<lparr> ss_pool := True \<rparr>))
      else (Inr (), c))"

definition PostgreSQL_getPool :: "PostgreSQLConnection \<Rightarrow> PostgreSQLConnection" where
  "PostgreSQL_getPool c = (if \<not> pg_pool c then c\<lparr> pg_pool := True \<rparr> else c)"

definition executionError :: "int \<Rightarrow> thrown \<Rightarrow> thrown" where
  "executionError elapsed error =
     Error (js ''Query execution failed ('' @ numberToString elapsed @ js ''ms): '' @
            messageOr error (js ''Unknown error''))"

definition SQLServer_executeQuery ::
  "env \<Rightarrow> SQLServerConnection \<Rightarrow> jsstring \<Rightarrow> state \<Rightarrow>
     (thrown + QueryResult) \<times> SQLServerConnection \<times> state" where
  "SQLServer_executeQuery e c query st0 =
     (let (startTime, st1) = tick e (log (ExecuteQuery (ss_handle c) query) st0);
          (pool, c1) = SQLServer_getPool e c
      in case pool of
           Inl error \<Rightarrow>
             (let (endTime, st2) = tick e st1
              in (Inl (executionError (endTime - startTime) error), c1, st2))
         | Inr _ \<Rightarrow>
             (case mssql_query e (ss_config c1) query of
                Inl error \<Rightarrow>
                  (let (endTime, st2) = tick e (log (PoolQuery (ss_handle c) query) st1)
                   in (Inl (executionError (endTime - startTime) error), c1, st2))
              | Inr result \<Rightarrow>
                  (let (endTime, st2) = tick e (log (PoolQuery (ss_handle c) query) st1)
                   in (Inr \<lparr> recordset =
                               (case mssql_recordset result of None \<Rightarrow> [] | Some r \<Rightarrow> r),
                             rowsAffected =
                               (case mssql_rowsAffected result of None \<Rightarrow> [0] | Some a \<Rightarrow> a),
                             executionTime = endTime - startTime \<rparr>,
                       c1, st2))))"

definition PostgreSQL_executeQuery ::
  "env \<Rightarrow> PostgreSQLConnection \<Rightarrow> jsstring \<Rightarrow> state \<Rightarrow>
     (thrown + QueryResult) \<times> PostgreSQLConnection \<times> state" where
  "PostgreSQL_executeQuery e c query st0 =
     (let (startTime, st1) = tick e (log (ExecuteQuery (pg_handle c) query) st0);
          c1 = PostgreSQL_getPool c
      in case pg_query e (pg_connectionString c1) query of
           Inl error \<Rightarrow>
             (let (endTime, st2) = tick e (log (PoolQuery (pg_handle c) query) st1)
              in (Inl (executionError (endTime - startTime) error), c1, st2))
         | Inr result \<Rightarrow>
             (let (endTime, st2) = tick e (log (PoolQuery (pg_handle c) query) st1)
              in (Inr \<lparr> recordset = (case pg_rows result of None \<Rightarrow> [] | Some r \<Rightarrow> r),
                        rowsAffected =
                          [case pg_rowCount result of None \<Rightarrow> 0 | Some n \<Rightarrow> n],
                        executionTime = endTime - startTime \<rparr>,
                  c1, st2)))"



text \<open>The methods of the interface \<open>DatabaseConnection\<close>, by the class of the object.\<close>

fun executeQuery ::
  "env \<Rightarrow> DatabaseConnection \<Rightarrow> jsstring \<Rightarrow> state \<Rightarrow>
     (thrown + QueryResult) \<times> DatabaseConnection \<times> state" where
  "executeQuery e (SQLServer c) query st =
     (let (r, c1, st1) = SQLServer_executeQuery e c query st in (r, SQLServer c1, st1))"
| "executeQuery e (PostgreSQL c) query st =
     (let (r, c1, st1) = PostgreSQL_executeQuery e c query st in (r, PostgreSQL c1, st1))"


text \<open>\<open>close()\<close> ends the pool, if there is one, and clears the field.\<close>

fun close :: "DatabaseConnection \<Rightarrow> state \<Rightarrow> DatabaseConnection \<times> state" where
  "close (SQLServer c) st = (SQLServer (c\<lparr> ss_pool := False \<rparr>), log (Close (ss_handle c)) st)"
| "close (PostgreSQL c) st = (PostgreSQL (c\<lparr> pg_pool := False \<rparr>), log (Close (pg_handle c)) st)"

text \<open>
  \<open>DatabaseManager.createConnection\<close>; \<open>h\<close> numbers the object it constructs. The
  arguments are declared \<open>string\<close>, but the test route passes fields of an unvalidated
  body: \<open>type.toLowerCase()\<close> throws a \<open>TypeError\<close> on a value that is not a string, and so
  does \<open>connectionString.match\<close> in the constructor of the SQL Server connection (the
  messages are those of Node).
\<close>

definition createConnection ::
  "runtime \<Rightarrow> js_value \<Rightarrow> js_value \<Rightarrow> nat \<Rightarrow> thrown + DatabaseConnection" where
  "createConnection r type connectionString h =
     (case type of
        JString t \<Rightarrow>
          if toLowerCase r t = js ''sqlserver''
          then (case connectionString of
                  JString c \<Rightarrow> Inr (SQLServer (new_SQLServerConnection h c))
                | _ \<Rightarrow> Inl (Error (js ''connectionString.match is not a function'')))
          else if toLowerCase r t = js ''postgresql''
          then Inr (PostgreSQL (new_PostgreSQLConnection h connectionString))
          else Inl (Error (js ''Unsupported database type: '' @ t))
      | _ \<Rightarrow> Inl (Error (js ''type.toLowerCase is not a function'')))"

section \<open>The routes (src/unnamed/part_001, registerRoutes)\<close>

record QueryExecutionResponse =
  res_naturalQuery :: jsstring
  res_generatedSql :: jsstring
  res_results :: recordset
  res_executionTime :: int
  res_rowCount :: nat
  res_status :: jsstring

text \<open>The JSON documents that the routes send, by their fields.\<close>

datatype body =
    Message jsstring
  | MessageErrors jsstring jsstring
  | MessageGeneratedSql jsstring jsstring
  | SuccessMessage bool jsstring
  | Execution QueryExecutionResponse
  | History "QueryHistory list"
  | ActiveConfig "DatabaseConfig option"
  | Config DatabaseConfig

record response =
  statusCode :: nat
  body :: body

text \<open>The calls \<open>databaseManager.createConnection\<close> and
  \<open>storage.createQueryHistoryEntry\<close> as the routes make them, on the state of the request.\<close>

definition openConnection ::
  "env \<Rightarrow> js_value \<Rightarrow> js_value \<Rightarrow> state \<Rightarrow> (thrown + DatabaseConnection) \<times> state" where
  "openConnection e type connectionString st =
     (case createConnection (rt e) type connectionString (Suc (handles st)) of
        Inl error \<Rightarrow> (Inl error, st)
      | Inr connection \<Rightarrow>
          (Inr connection,
           log (CreateConnection (Suc (handles st))) (st\<lparr> handles := Suc (handles st) \<rparr>)))"

definition saveHistoryEntry :: "env \<Rightarrow> InsertQueryHistory \<Rightarrow> state \<Rightarrow> state" where
  "saveHistoryEntry e entry st0 =
     (let (createdAt, st1) = tick e st0
      in st1\<lparr> storage := snd (createQueryHistoryEntry (storage st1) entry createdAt) \<rparr>)"

subsection \<open>Schema text for the generator\<close>

definition truthy :: "js_value \<Rightarrow> bool" where
  "truthy v =
     (case v of
        JUndefined \<Rightarrow> False
      | JNull \<Rightarrow> False
      | JBool b \<Rightarrow> b
      | JNumber n \<Rightarrow> n \<noteq> 0
      | JString t \<Rightarrow> t \<noteq> []
      | JObject t \<Rightarrow> True)"

definition js_or :: "js_value \<Rightarrow> js_value \<Rightarrow> js_value" where
  "js_or a b = (if truthy a then a else b)"

definition getProp :: "row \<Rightarrow> jsstring \<Rightarrow> js_value" where
  "getProp r k = (case map_of r k of None \<Rightarrow> JUndefined | Some v \<Rightarrow> v)"

fun toString :: "js_value \<Rightarrow> jsstring" where
  "toString JUndefined = js ''undefined''"
| "toString JNull = js ''null''"
| "toString (JBool b) = (if b then js ''true'' else js ''false'')"
| "toString (JNumber n) = numberToString n"
| "toString (JString t) = t"
| "toString (JObject t) = t"

fun join :: "jsstring \<Rightarrow> jsstring list \<Rightarrow> jsstring" where
  "join sep [] = []"
| "join sep [x] = x"
| "join sep (x # y # ys) = x @ sep @ join sep (y # ys)"

definition schemaQuery :: "jsstring \<Rightarrow> jsstring" where
  "schemaQuery type =
     (if type = js ''postgresql''
      then js ''SELECT table_name, column_name, data_type, is_nullable '' @ [10] @
           js ''             FROM information_schema.columns '' @ [10] @
           js ''             WHERE table_schema = 'public' '' @ [10] @
           js ''             ORDER BY table_name, ordinal_position''
      else js ''SELECT TABLE_NAME, COLUMN_NAME, DATA_TYPE, IS_NULLABLE '' @ [10] @
           js ''             FROM INFORMATION_SCHEMA.COLUMNS '' @ [10] @
           js ''             WHERE TABLE_SCHEMA = 'dbo' '' @ [10] @
           js ''             ORDER BY TABLE_NAME, ORDINAL_POSITION'')"

text \<open>The body of \<open>forEach\<close>: the column is pushed onto the list of its table.\<close>

definition addColumn ::
  "row \<Rightarrow> (js_value, jsstring list) Map \<Rightarrow> (js_value, jsstring list) Map" where
  "addColumn r tables =
     (let tableName = js_or (getProp r (js ''table_name'')) (getProp r (js ''TABLE_NAME''));
          columnName = js_or (getProp r (js ''column_name'')) (getProp r (js ''COLUMN_NAME''));
          dataType = js_or (getProp r (js ''data_type'')) (getProp r (js ''DATA_TYPE''));
          isNullable = js_or (getProp r (js ''is_nullable'')) (getProp r (js ''IS_NULLABLE''));
          column = toString columnName @ js '' ('' @ toString dataType @
                   (if isNullable = JString (js ''YES'') then js '', nullable'' else []) @ js '')''
      in case Map_get tables tableName of
           None \<Rightarrow> Map_set tableName [column] tables
         | Some columns \<Rightarrow> Map_set tableName (columns @ [column]) tables)"

definition formatSchema :: "recordset \<Rightarrow> jsstring" where
  "formatSchema rs =
     join [10]
       (map (\<lambda>(table, columns). toString table @ js '': '' @ join (js '', '') columns)
          (fold addColumn rs []))"

text \<open>The first \<open>try\<close> block of the execute route. Its \<open>catch\<close> only logs, so every failure
  leaves \<open>tableSchema\<close> empty; \<open>connection.close()\<close> is the last statement of the block.\<close>

definition fetchSchema :: "env \<Rightarrow> DatabaseConfig \<Rightarrow> state \<Rightarrow> jsstring \<times> state" where
  "fetchSchema e dbConfig st0 =
     (case openConnection e (JString (cfg_type dbConfig))
             (JString (cfg_connectionString dbConfig)) st0 of
        (Inl schemaError, st1) \<Rightarrow> ([], st1)
      | (Inr connection, st1) \<Rightarrow>
          (case executeQuery e connection (schemaQuery (cfg_type dbConfig)) st1 of
             (Inl schemaError, connection1, st2) \<Rightarrow> ([], st2)
           | (Inr schemaResult, connection1, st2) \<Rightarrow>
               (let tableSchema =
                      (if length (recordset schemaResult) > 0
                       then formatSchema (recordset schemaResult) else []);
                    (connection2, st3) = close connection1 st2
                in (tableSchema, st3))))"

subsection \<open>POST /api/queries/execute\<close>

text \<open>\<open>!x\<close> where \<open>x\<close> is an object, here the promise that an \<open>async\<close> function returns
  and that the caller does not \<open>await\<close>: every object is truthy, so the negation is false
  whatever the promise holds.\<close>

definition not_object :: "'a Promise \<Rightarrow> bool" where
  "not_object p = False"

text \<open>The \<open>catch\<close> of the whole route.\<close>

definition routeCatch :: "thrown \<Rightarrow> response" where
  "routeCatch error =
     (case error of
        ZodError errors \<Rightarrow>
          \<lparr> statusCode = 400, body = MessageErrors (js ''Invalid request data'') errors \<rparr>
      | _ \<Rightarrow>
          \<lparr> statusCode = 500, body = Message (messageOr error (js ''Unknown error occurred'')) \<rparr>)"

text \<open>The branch taken when the validation fails.\<close>

definition rejectGeneratedSql ::
  "env \<Rightarrow> jsstring \<Rightarrow> SQLGenerationResult \<Rightarrow> int \<Rightarrow> state \<Rightarrow> response \<times> state" where
  "rejectGeneratedSql e query sqlResult startTime st0 =
     (let (t, st1) = tick e st0;
          st2 = saveHistoryEntry e
                  \<lparr> ins_naturalQuery = query,
                    ins_generatedSql = sql sqlResult,
                    ins_executionTime = Some (t - startTime),
                    ins_rowCount = Some 0,
                    ins_status = js ''error'',
                    ins_errorMessage = Some (js ''Generated query failed security validation''),
                    ins_results = None \<rparr> st1
      in (\<lparr> statusCode = 400,
            body = Message (js ''Generated query failed security validation. Only SELECT statements are allowed.'') \<rparr>,
          st2))"

text \<open>\<open>catch (dbError)\<close> of the second \<open>try\<close> block.\<close>

definition catchDbError ::
  "env \<Rightarrow> jsstring \<Rightarrow> SQLGenerationResult \<Rightarrow> int \<Rightarrow> thrown \<Rightarrow> state \<Rightarrow> response \<times> state" where
  "catchDbError e query sqlResult startTime dbError st0 =
     (let (t, st1) = tick e st0;
          errorMessage = messageOr dbError (js ''Database execution failed'');
          st2 = saveHistoryEntry e
                  \<lparr> ins_naturalQuery = query,
                    ins_generatedSql = sql sqlResult,
                    ins_executionTime = Some (t - startTime),
                    ins_rowCount = Some 0,
                    ins_status = js ''error'',
                    ins_errorMessage = Some errorMessage,
                    ins_results = None \<rparr> st1
      in (\<lparr> statusCode = 500,
            body = MessageGeneratedSql (js ''Database query failed: '' @ errorMessage)
                     (sql sqlResult) \<rparr>,
          st2))"

text \<open>The second \<open>try\<close> block: connect, execute, save, close, answer.\<close>

definition runGeneratedSql ::
  "env \<Rightarrow> DatabaseConfig \<Rightarrow> jsstring \<Rightarrow> SQLGenerationResult \<Rightarrow> int \<Rightarrow> state \<Rightarrow>
     response \<times> state" where
  "runGeneratedSql e dbConfig query sqlResult startTime st0 =
     (case openConnection e (JString (cfg_type dbConfig))
             (JString (cfg_connectionString dbConfig)) st0 of
        (Inl dbError, st1) \<Rightarrow> catchDbError e query sqlResult startTime dbError st1
      | (Inr connection, st1) \<Rightarrow>
          (case executeQuery e connection (sql sqlResult) st1 of
             (Inl dbError, connection1, st2) \<Rightarrow>
               catchDbError e query sqlResult startTime dbError st2
           | (Inr queryResult, connection1, st2) \<Rightarrow>
               (let st3 = saveHistoryEntry e
                            \<lparr> ins_naturalQuery = query,
                              ins_generatedSql = sql sqlResult,
                              ins_executionTime = Some (executionTime queryResult),
                              ins_rowCount = Some (length (recordset queryResult)),
                              ins_status = js ''success'',
                              ins_errorMessage = None,
                              ins_results = Some (recordset queryResult) \<rparr> st2;
                    (connection2, st4) = close connection1 st3
                in (\<lparr> statusCode = 200,
                      body = Execution
                        \<lparr> res_naturalQuery = query,
                          res_generatedSql = sql sqlResult,
                          res_results = recordset queryResult,
                          res_executionTime = executionTime queryResult,
                          res_rowCount = length (recordset queryResult),
                          res_status = js ''success'' \<rparr> \<rparr>,
                    st4))))"

text \<open>The route. \<open>reqQuery\<close> is the \<open>query\<close> field of the request body.\<close>

definition executeRoute :: "env \<Rightarrow> jsstring option \<Rightarrow> state \<Rightarrow> response \<times> state" where
  "executeRoute e reqQuery st0 =
     (case naturalLanguageQuerySchema_parse reqQuery of
        Inl error \<Rightarrow> (routeCatch error, st0)
      | Inr query \<Rightarrow>
          (case getActiveDatabaseConfig (storage st0) of
             None \<Rightarrow>
               (\<lparr> statusCode = 400,
                  body = Message (js ''No active database configuration found. Please configure a database connection first.'') \<rparr>,
                st0)
           | Some dbConfig \<Rightarrow>
               (let (startTime, st1) = tick e st0;
                    (tableSchema, st2) = fetchSchema e dbConfig st1;
                    st3 = log (Generate query (cfg_type dbConfig) tableSchema) st2
                in case generateSQLFromNaturalLanguage e query (cfg_type dbConfig) tableSchema of
                     Inl error \<Rightarrow> (routeCatch error, st3)
                   | Inr sqlResult \<Rightarrow>
                       if not_object (validateSQLQuery (rt e) (JString (sql sqlResult)))
                       then rejectGeneratedSql e query sqlResult startTime st3
                       else runGeneratedSql e dbConfig query sqlResult startTime st3)))"

subsection \<open>GET and DELETE /api/queries/history\<close>

text \<open>\<open>reqLimit\<close> is \<open>req.query.limit\<close>; an empty string is falsy.\<close>

definition historyRoute :: "env \<Rightarrow> jsstring option \<Rightarrow> state \<Rightarrow> response \<times> state" where
  "historyRoute e reqLimit st =
     (let limit = (case reqLimit of
                     None \<Rightarrow> Num 50
                   | Some t \<Rightarrow> if t = [] then Num 50 else parseInt (rt e) t)
      in (\<lparr> statusCode = 200, body = History (getQueryHistory (storage st) (Some limit)) \<rparr>, st))"

definition clearHistoryRoute :: "env \<Rightarrow> state \<Rightarrow> response \<times> state" where
  "clearHistoryRoute e st =
     (\<lparr> statusCode = 200, body = Message (js ''Query history cleared successfully'') \<rparr>,
      st\<lparr> storage := clearQueryHistory (storage st) \<rparr>)"

subsection \<open>GET and POST /api/database/configs\<close>

definition activeConfigRoute :: "env \<Rightarrow> state \<Rightarrow> response \<times> state" where
  "activeConfigRoute e st =
     (\<lparr> statusCode = 200, body = ActiveConfig (getActiveDatabaseConfig (storage st)) \<rparr>, st)"

text \<open>\<open>reqBody\<close> is \<open>None\<close> when \<open>insertDatabaseConfigSchema.parse\<close> throws.\<close>

definition saveConfigRoute ::
  "env \<Rightarrow> InsertDatabaseConfig option \<Rightarrow> state \<Rightarrow> response \<times> state" where
  "saveConfigRoute e reqBody st0 =
     (case reqBody of
        None \<Rightarrow>
          (\<lparr> statusCode = 400,
             body = MessageErrors (js ''Invalid configuration data'') (js ''invalid_type'') \<rparr>,
           st0)
      | Some configData \<Rightarrow>
          (let (createdAt, st1) = tick e st0;
               (config, s) = createDatabaseConfig (storage st1) configData createdAt
           in (\<lparr> statusCode = 200, body = Config config \<rparr>, st1\<lparr> storage := s \<rparr>)))"

subsection \<open>POST /api/database/test\<close>



section \<open>What a request did\<close>

text \<open>The statements that reached a driver, the connection objects constructed, and the
  objects on which \<open>executeQuery\<close> and \<open>close\<close> were called, in the order of the calls.\<close>

fun sentToDriver :: "event list \<Rightarrow> jsstring list" where
  "sentToDriver [] = []"
| "sentToDriver (PoolQuery h q # evs) = q # sentToDriver evs"
| "sentToDriver (ev # evs) = sentToDriver evs"

fun constructed :: "event list \<Rightarrow> nat list" where
  "constructed [] = []"
| "constructed (CreateConnection h # evs) = h # constructed evs"
| "constructed (ev # evs) = constructed evs"

fun executed :: "event list \<Rightarrow> (nat \<times> jsstring) list" where
  "executed [] = []"
| "executed (ExecuteQuery h q # evs) = (h, q) # executed evs"
| "executed (ev # evs) = executed evs"

fun closed :: "event list \<Rightarrow> nat list" where
  "closed [] = []"
| "closed (Close h # evs) = h # closed evs"
| "closed (ev # evs) = closed evs"

fun generatorCalls :: "event list \<Rightarrow> nat" where
  "generatorCalls [] = 0"
| "generatorCalls (Generate q t s # evs) = Suc (generatorCalls evs)"
| "generatorCalls (ev # evs) = generatorCalls evs"

section \<open>Test doubles\<close>

text \<open>
  A stub generator that answers every question with the same SQL, a PostgreSQL backend
  given as a function of the statement, and a clock that advances by 7 ms at each reading.
\<close>

definition stub_env :: "jsstring \<Rightarrow> (jsstring \<Rightarrow> thrown + pg_result) \<Rightarrow> env" where
  "stub_env generated backend =
     \<lparr> rt = ascii_runtime,
       dateNow = (\<lambda>k. 1000 + 7 * int k),
       generateSQLFromNaturalLanguage = (\<lambda>q t s. Inr \<lparr> sql = generated, explanation = [] \<rparr>),
       mssql_connect = (\<lambda>c. Some (Error (js ''no server''))),
       mssql_query = (\<lambda>c q. Inl (Error (js ''no server''))),
       pg_query = (\<lambda>c. backend) \<rparr>"

definition three_rows :: "jsstring \<Rightarrow> thrown + pg_result" where
  "three_rows q =
     Inr \<lparr> pg_rows = Some [[(js ''id'', JNumber 1)], [(js ''id'', JNumber 2)],
                          [(js ''id'', JNumber 3)]],
           pg_rowCount = Some 3 \<rparr>"

definition unreachable_backend :: "jsstring \<Rightarrow> thrown + pg_result" where
  "unreachable_backend q = Inl (Error (js ''connection refused''))"

text \<open>A backend whose driver rejects with the string \<open>boom\<close>, a value that is not an
  \<open>Error\<close> instance.\<close>

definition boom_backend :: "jsstring \<Rightarrow> thrown + pg_result" where
  "boom_backend q = Inl (NonError (JString (js ''boom'')))"

text \<open>A backend that answers the schema query of the route with no rows and fails on every
  other statement.\<close>

definition schema_only_backend :: "jsstring \<Rightarrow> thrown + pg_result" where
  "schema_only_backend q =
     (if q = schemaQuery (js ''postgresql'')
      then Inr \<lparr> pg_rows = Some [], pg_rowCount = Some 0 \<rparr>
      else Inl (Error (js ''table t does not exist'')))"

definition request_state :: "MemStorage \<Rightarrow> state" where
  "request_state s = \<lparr> storage = s, clockReads = 0, handles = 0, events = [] \<rparr>"

text \<open>A fresh store.\<close>

definition fresh_store :: MemStorage where
  "fresh_store = new_MemStorage None 0"

text \<open>A store in which two configurations are active at once; no sequence of operations
  produces it from a fresh store.\<close>

definition two_active_store :: MemStorage where
  "two_active_store =
     \<lparr> databaseConfigs =
         [(1, \<lparr> cfg_id = 1, cfg_name = js ''A'', cfg_type = js ''postgresql'',
                cfg_connectionString = js ''postgresql://a'', cfg_isActive = Some True,
                cfg_createdAt = 0 \<rparr>),
          (2, \<lparr> cfg_id = 2, cfg_name = js ''B'', cfg_type = js ''sqlserver'',
                cfg_connectionString = js ''Server=b'', cfg_isActive = Some True,
                cfg_createdAt = 1 \<rparr>)],
       queryHistory = [],
       currentConfigId = 3,
       currentHistoryId = 1 \<rparr>"

text \<open>The fresh store after its only configuration was switched off.\<close>

definition inactive_store :: MemStorage where
  "inactive_store =
     snd (updateDatabaseConfig fresh_store 1
            \<lparr> upd_name = None, upd_type = None, upd_connectionString = None,
              upd_isActive = Some (Some False) \<rparr>)"

text \<open>Three requests to the execute route on a fresh store: the generator answers
  \<open>DROP TABLE t\<close> and the backend runs it; the backend fails on the generated statement;
  the backend fails on every statement.\<close>

definition drop_table_request :: "response \<times> state" where
  "drop_table_request =
     executeRoute (stub_env (js ''DROP TABLE t'') three_rows) (Some (js ''Show all rows''))
       (request_state fresh_store)"

definition failing_query_request :: "response \<times> state" where
  "failing_query_request =
     executeRoute (stub_env (js ''SELECT * FROM t'') schema_only_backend)
       (Some (js ''Show all rows'')) (request_state fresh_store)"

definition unreachable_backend_request :: "response \<times> state" where
  "unreachable_backend_request =
     executeRoute (stub_env (js ''SELECT * FROM t'') unreachable_backend)
       (Some (js ''Show all rows'')) (request_state fresh_store)"

definition activate :: PartialInsertDatabaseConfig where
  "activate =
     \<lparr> upd_name = None, upd_type = None, upd_connectionString = None,
       upd_isActive = Some (Some True) \<rparr>"

definition sqlserver_config :: InsertDatabaseConfig where
  "sqlserver_config =
     \<lparr> new_name = js ''Reporting'', new_type = js ''sqlserver'',
       new_connectionString = js ''Server=db1;Database=reports;Integrated Security=true'',
       new_isActive = Some True \<rparr>"

text \<open>A store with three history entries, recorded at the times 20, 30 and 10.\<close>

definition history_entry :: "jsstring \<Rightarrow> InsertQueryHistory" where
  "history_entry q =
     \<lparr> ins_naturalQuery = q, ins_generatedSql = js ''SELECT 1'', ins_executionTime = Some 3,
       ins_rowCount = Some 1, ins_status = js ''success'', ins_errorMessage = None,
       ins_results = Some [[(js ''x'', JNumber 1)]] \<rparr>"

definition logged_store :: MemStorage where
  "logged_store =
     snd (createQueryHistoryEntry
       (snd (createQueryHistoryEntry
         (snd (createQueryHistoryEntry fresh_store (history_entry (js ''a'')) 20))
         (history_entry (js ''b'')) 30))
       (history_entry (js ''c'')) 10)"

section \<open>Properties of the validator\<close>

lemma startsWith_prefix: "startsWith s k \<longleftrightarrow> prefix k s"
  by (induction s k rule: startsWith.induct) auto

lemma str_includes_sublist: "str_includes s k \<longleftrightarrow> sublist k s"
  by (induction s) (auto simp: startsWith_prefix sublist_Cons_right)

lemma sublist_dropWhile_iff:
  assumes "\<forall>c \<in> set k. \<not> P c"
  shows "sublist k (dropWhile P s) \<longleftrightarrow> sublist k s"
proof (induction s)
  case Nil
  show ?case by simp
next
  case (Cons a s)
  show ?case
  proof (cases "P a")
    case True
    have "prefix k (a # s) \<Longrightarrow> k = []"
      using assms True by (cases k) auto
    then have "sublist k (a # s) \<longleftrightarrow> sublist k s"
      by (auto simp: sublist_Cons_right)
    with True Cons show ?thesis by simp
  next
    case False
    then show ?thesis by simp
  qed
qed

lemma sublist_trim_iff:
  assumes "\<forall>c \<in> set k. \<not> isWhiteSpace c"
  shows "sublist k (trim s) \<longleftrightarrow> sublist k s"
proof -
  have r: "\<forall>c \<in> set (rev k). \<not> isWhiteSpace c"
    using assms by simp
  have "sublist k (trim s) \<longleftrightarrow> sublist (rev k) (dropWhile isWhiteSpace (rev (dropWhile isWhiteSpace s)))"
    unfolding trim_def by (rule sublist_rev_right)
  also have "\<dots> \<longleftrightarrow> sublist (rev k) (rev (dropWhile isWhiteSpace s))"
    by (rule sublist_dropWhile_iff [OF r])
  also have "\<dots> \<longleftrightarrow> sublist k (dropWhile isWhiteSpace s)"
    by simp
  also have "\<dots> \<longleftrightarrow> sublist k s"
    by (rule sublist_dropWhile_iff [OF assms])
  finally show ?thesis .
qed

lemma noDangerousKeyword_list_ex:
  "noDangerousKeyword u ks \<longleftrightarrow> \<not> list_ex (str_includes u) ks"
  by (induction ks) auto

lemma dangerousKeywords_no_space:
  "k \<in> set dangerousKeywords \<Longrightarrow> c \<in> set k \<Longrightarrow> \<not> isWhiteSpace c"
  by (auto simp: dangerousKeywords_def js_def isWhiteSpace_def)

lemma list_ex_trim:
  "list_ex (str_includes (trim u)) dangerousKeywords \<longleftrightarrow> list_ex (str_includes u) dangerousKeywords"
  unfolding list_ex_iff str_includes_sublist
  using sublist_trim_iff dangerousKeywords_no_space by blast

text \<open>
  C3. For every input, the promise of \<open>validateSQLQuery\<close> resolves, never rejects. For a
  string it resolves to true exactly when the uppercased, trimmed text begins with
  \<open>SELECT\<close> and the uppercased text contains none of the denylisted substrings (the code
  searches the trimmed text; no keyword contains white space, so this is the same). For a
  value that is not a string, the failure inside is caught and the answer is false.
\<close>

theorem validateSQLQuery_refines_spec:
  "validateSQLQuery r v =
     Resolved (case v of JString s \<Rightarrow> isSafe_spec r s | _ \<Rightarrow> False)"
  by (cases v)
     (auto simp: validateSQLQuery_def validateSQLQuery_try_def isSafe_spec_def Let_def
        noDangerousKeyword_list_ex list_ex_trim)

theorem validateSQLQuery_refines_spec_witness:
  "validateSQLQuery ascii_runtime (JString (js ''  select name from users '')) = Resolved True \<and>
   validateSQLQuery ascii_runtime (JString (js ''SELECT 1; drop table t'')) = Resolved False \<and>
   validateSQLQuery ascii_runtime JUndefined = Resolved False"
proof -
  have a: "isSafe_spec ascii_runtime (js ''  select name from users '')"
    by code_simp
  have b: "\<not> isSafe_spec ascii_runtime (js ''SELECT 1; drop table t'')"
    by code_simp
  show ?thesis
    using a b
      validateSQLQuery_refines_spec [of ascii_runtime "JString (js ''  select name from users '')"]
      validateSQLQuery_refines_spec [of ascii_runtime "JString (js ''SELECT 1; drop table t'')"]
      validateSQLQuery_refines_spec [of ascii_runtime JUndefined]
    by simp
qed

section \<open>Properties of the store\<close>

lemma Map_set_keys:
  "fst ` set (Map_set k v m) = insert k (fst ` set m)"
proof (induction m)
  case Nil
  show ?case by simp
next
  case (Cons p m)
  obtain k' c where p: "p = (k', c)" by (cases p)
  show ?case
  proof (cases "k' = k")
    case True
    with p show ?thesis by simp
  next
    case False
    with p Cons.IH show ?thesis by (simp add: insert_commute)
  qed
qed

lemma Map_set_distinct:
  "distinct (map fst m) \<Longrightarrow> distinct (map fst (Map_set k v m))"
proof (induction m)
  case Nil
  then show ?case by simp
next
  case (Cons p m)
  obtain k' c where p: "p = (k', c)" by (cases p)
  have "k' \<notin> fst ` set (Map_set k v m)" if "k' \<noteq> k"
    using that Cons.prems p by (simp add: Map_set_keys)
  with Cons p show ?case by auto
qed

lemma Map_set_list_all:
  "list_all (\<lambda>(k, c). Q k c) m \<Longrightarrow> Q k v \<Longrightarrow> list_all (\<lambda>(k, c). Q k c) (Map_set k v m)"
  by (induction m) auto

lemma filter_Map_set_none:
  "\<forall>c \<in> set (map snd m). \<not> P c \<Longrightarrow> P v \<Longrightarrow> filter P (map snd (Map_set k v m)) = [v]"
  by (induction m) auto

lemma filter_Map_set_others:
  "distinct (map fst m) \<Longrightarrow> k \<in> fst ` set m \<Longrightarrow>
   \<forall>(k', c) \<in> set m. k' \<noteq> k \<longrightarrow> \<not> P c \<Longrightarrow> P v \<Longrightarrow>
   filter P (map snd (Map_set k v m)) = [v]"
proof (induction m)
  case Nil
  then show ?case by simp
next
  case (Cons p m)
  obtain k' c where p: "p = (k', c)" by (cases p)
  show ?case
  proof (cases "k' = k")
    case True
    with Cons.prems p have "\<forall>c \<in> set (map snd m). \<not> P c"
      by (force simp: image_iff)
    with True p Cons.prems(4) show ?thesis
      by (simp add: filter_empty_conv)
  next
    case False
    with Cons p show ?thesis by auto
  qed
qed

lemma length_filter_Map_set_inactive:
  "\<not> P v \<Longrightarrow> length (filter P (map snd (Map_set k v m))) \<le> length (filter P (map snd m))"
  by (induction m) auto

lemma length_filter_Map_set_same:
  "map_of m k = Some ex \<Longrightarrow> (P v \<longrightarrow> P ex) \<Longrightarrow>
   length (filter P (map snd (Map_set k v m))) \<le> length (filter P (map snd m))"
  by (induction m) (auto split: if_splits)

lemma forEachValue_fst: "map fst (forEachValue f m) = map fst m"
  by (induction m) (auto simp: forEachValue_def)

lemma forEachValue_snd: "map snd (forEachValue f m) = map f (map snd m)"
  by (induction m) (auto simp: forEachValue_def)

lemma create_active_one:
  assumes "new_isActive config = Some True"
  shows "length (activeConfigs (snd (createDatabaseConfig s config now))) = 1"
proof -
  let ?P = "\<lambda>c. cfg_isActive c = Some True"
  let ?m = "forEachValue (\<lambda>c. c\<lparr>cfg_isActive := Some False\<rparr>) (databaseConfigs s)"
  have "\<forall>c \<in> set (map snd ?m). \<not> ?P c"
    by (simp add: forEachValue_snd)
  then have "filter ?P (map snd (Map_set (currentConfigId s) v ?m)) = [v]" if "?P v" for v
    using that by (rule filter_Map_set_none)
  then show ?thesis
    using assms by (simp add: activeConfigs_def createDatabaseConfig_def Let_def Map_values_def)
qed

lemma keyed_by_id_key:
  "keyed_by_id s \<Longrightarrow> (k, c) \<in> set (databaseConfigs s) \<Longrightarrow> cfg_id c = k"
  by (auto simp: keyed_by_id_def keyed_def list_all_iff)

lemma update_active_one:
  assumes wf: "keyed_by_id s"
    and ex: "getDatabaseConfig s i = Some existing"
    and act: "upd_isActive config = Some (Some True)"
  shows "length (activeConfigs (snd (updateDatabaseConfig s i config))) = 1"
proof -
  let ?P = "\<lambda>c. cfg_isActive c = Some True"
  let ?f = "\<lambda>c. if cfg_id c \<noteq> i then c\<lparr>cfg_isActive := Some False\<rparr> else c"
  let ?m = "forEachValue ?f (databaseConfigs s)"
  have mo: "map_of (databaseConfigs s) i = Some existing"
    using ex by (simp add: getDatabaseConfig_def Map_get_def)
  have d: "distinct (map fst ?m)"
    using wf by (simp add: forEachValue_fst keyed_by_id_def keyed_def)
  have "i \<in> fst ` set (databaseConfigs s)"
    using mo by (metis domI dom_map_of_conv_image_fst)
  then have k: "i \<in> fst ` set ?m"
    using forEachValue_fst [of ?f "databaseConfigs s"] by (metis set_map)
  have o: "\<forall>(k', c) \<in> set ?m. k' \<noteq> i \<longrightarrow> \<not> ?P c"
    using keyed_by_id_key [OF wf] by (auto simp: forEachValue_def)
  have "filter ?P (map snd (Map_set i v ?m)) = [v]" if "?P v" for v
    using d k o that by (rule filter_Map_set_others)
  then show ?thesis
    using mo act
    by (simp add: activeConfigs_def updateDatabaseConfig_def Let_def Map_values_def Map_get_def)
qed

lemma keyed_Map_set: "keyed m \<Longrightarrow> cfg_id v = k \<Longrightarrow> keyed (Map_set k v m)"
  unfolding keyed_def
  using Map_set_distinct [of m k v] Map_set_list_all [of "\<lambda>k c. cfg_id c = k" m k v]
  by simp

lemma keyed_forEachValue:
  assumes "keyed m" and "\<And>c. cfg_id (f c) = cfg_id c"
  shows "keyed (forEachValue f m)"
proof -
  have "list_all (\<lambda>(k, c). cfg_id c = k) (forEachValue f m)"
    using assms by (auto simp: keyed_def forEachValue_def list_all_iff)
  with assms(1) show ?thesis
    by (simp add: keyed_def forEachValue_fst)
qed

lemma keyed_by_id_keyed: "keyed_by_id s \<longleftrightarrow> keyed (databaseConfigs s)"
  by (simp add: keyed_by_id_def)

lemma create_keyed_by_id:
  assumes "keyed_by_id s"
  shows "keyed_by_id (snd (createDatabaseConfig s config now))"
proof -
  have "keyed (forEachValue (\<lambda>c. c\<lparr>cfg_isActive := Some False\<rparr>) (databaseConfigs s))"
    using assms by (intro keyed_forEachValue) (simp_all add: keyed_by_id_keyed)
  then show ?thesis
    using assms
    by (simp add: keyed_by_id_keyed createDatabaseConfig_def Let_def keyed_Map_set)
qed

lemma update_keyed_by_id:
  assumes "keyed_by_id s"
  shows "keyed_by_id (snd (updateDatabaseConfig s i config))"
proof (cases "Map_get (databaseConfigs s) i")
  case None
  with assms show ?thesis by (simp add: updateDatabaseConfig_def)
next
  case (Some existing)
  then have "(i, existing) \<in> set (databaseConfigs s)"
    by (simp add: Map_get_def map_of_SomeD)
  then have id: "cfg_id existing = i"
    using assms by (rule keyed_by_id_key [rotated])
  have "keyed (forEachValue
                (\<lambda>c. if cfg_id c \<noteq> i then c\<lparr>cfg_isActive := Some False\<rparr> else c)
                (databaseConfigs s))"
    using assms by (intro keyed_forEachValue) (simp_all add: keyed_by_id_keyed)
  then show ?thesis
    using assms Some id
    by (simp add: keyed_by_id_keyed updateDatabaseConfig_def Let_def keyed_Map_set)
qed

lemma activeConfigs_create:
  "activeConfigs (snd (createDatabaseConfig s config now)) =
     filter (\<lambda>c. cfg_isActive c = Some True)
       (map snd
          (Map_set (currentConfigId s)
             \<lparr> cfg_id = currentConfigId s,
               cfg_name = new_name config,
               cfg_type = new_type config,
               cfg_connectionString = new_connectionString config,
               cfg_isActive = Some (case new_isActive config of None \<Rightarrow> False | Some b \<Rightarrow> b),
               cfg_createdAt = now \<rparr>
             (if new_isActive config = Some True
              then forEachValue (\<lambda>c. c\<lparr>cfg_isActive := Some False\<rparr>) (databaseConfigs s)
              else databaseConfigs s)))"
  by (simp add: activeConfigs_def createDatabaseConfig_def Let_def Map_values_def)

lemma create_active_le:
  assumes "length (activeConfigs s) \<le> 1"
  shows "length (activeConfigs (snd (createDatabaseConfig s config now))) \<le> 1"
proof (cases "new_isActive config = Some True")
  case True
  then show ?thesis by (simp add: create_active_one)
next
  case False
  let ?P = "\<lambda>c. cfg_isActive c = Some True"
  let ?v = "\<lparr> cfg_id = currentConfigId s,
               cfg_name = new_name config,
               cfg_type = new_type config,
               cfg_connectionString = new_connectionString config,
               cfg_isActive = Some (case new_isActive config of None \<Rightarrow> False | Some b \<Rightarrow> b),
               cfg_createdAt = now \<rparr>"
  have "\<not> ?P ?v"
    using False by (cases "new_isActive config") auto
  then have "length (filter ?P (map snd (Map_set (currentConfigId s) ?v (databaseConfigs s))))
          \<le> length (filter ?P (map snd (databaseConfigs s)))"
    by (rule length_filter_Map_set_inactive)
  also have "\<dots> = length (activeConfigs s)"
    by (simp only: activeConfigs_def Map_values_def)
  also note assms
  finally show ?thesis
    using False by (simp only: activeConfigs_create if_False)
qed

lemma activeConfigs_update:
  assumes "Map_get (databaseConfigs s) i = Some existing"
    and "upd_isActive config \<noteq> Some (Some True)"
  shows "activeConfigs (snd (updateDatabaseConfig s i config)) =
     filter (\<lambda>c. cfg_isActive c = Some True)
       (map snd
          (Map_set i
             (existing
                \<lparr> cfg_name := (case upd_name config of None \<Rightarrow> cfg_name existing | Some n \<Rightarrow> n),
                  cfg_type := (case upd_type config of None \<Rightarrow> cfg_type existing | Some t \<Rightarrow> t),
                  cfg_connectionString :=
                    (case upd_connectionString config of
                       None \<Rightarrow> cfg_connectionString existing | Some c \<Rightarrow> c),
                  cfg_isActive :=
                    (case upd_isActive config of None \<Rightarrow> cfg_isActive existing | Some a \<Rightarrow> a) \<rparr>)
             (databaseConfigs s)))"
  using assms
  by (simp add: activeConfigs_def updateDatabaseConfig_def Let_def Map_values_def)

lemma update_active_le:
  assumes wf: "keyed_by_id s" and le: "length (activeConfigs s) \<le> 1"
  shows "length (activeConfigs (snd (updateDatabaseConfig s i config))) \<le> 1"
proof (cases "Map_get (databaseConfigs s) i")
  case None
  with le show ?thesis by (simp add: updateDatabaseConfig_def)
next
  case (Some existing)
  show ?thesis
  proof (cases "upd_isActive config = Some (Some True)")
    case True
    with wf Some show ?thesis
      by (simp add: update_active_one getDatabaseConfig_def)
  next
    case False
    let ?P = "\<lambda>c. cfg_isActive c = Some True"
    let ?v = "existing
                \<lparr> cfg_name := (case upd_name config of None \<Rightarrow> cfg_name existing | Some n \<Rightarrow> n),
                  cfg_type := (case upd_type config of None \<Rightarrow> cfg_type existing | Some t \<Rightarrow> t),
                  cfg_connectionString :=
                    (case upd_connectionString config of
                       None \<Rightarrow> cfg_connectionString existing | Some c \<Rightarrow> c),
                  cfg_isActive :=
                    (case upd_isActive config of None \<Rightarrow> cfg_isActive existing | Some a \<Rightarrow> a) \<rparr>"
    have imp: "?P ?v \<longrightarrow> ?P existing"
      using False by (cases "upd_isActive config") auto
    have mo: "map_of (databaseConfigs s) i = Some existing"
      using Some by (simp add: Map_get_def)
    from mo imp
    have "length (filter ?P (map snd (Map_set i ?v (databaseConfigs s))))
            \<le> length (filter ?P (map snd (databaseConfigs s)))"
      by (rule length_filter_Map_set_same)
    also have "\<dots> = length (activeConfigs s)"
      by (simp only: activeConfigs_def Map_values_def)
    also note le
    finally show ?thesis
      by (simp only: activeConfigs_update [OF Some False])
  qed
qed

lemma fresh_keyed_by_id: "keyed_by_id (new_MemStorage url now)"
  by (simp add: keyed_by_id_def keyed_def new_MemStorage_def)

lemma fresh_active: "length (activeConfigs (new_MemStorage url now)) = 1"
  by (simp add: activeConfigs_def new_MemStorage_def Map_values_def)

lemma reachable_invariant:
  "reachable s \<Longrightarrow> keyed_by_id s \<and> length (activeConfigs s) \<le> 1"
proof (induction rule: reachable.induct)
  case (fresh url now)
  show ?case by (simp add: fresh_keyed_by_id fresh_active)
next
  case (created s config now)
  then show ?case by (blast intro: create_keyed_by_id create_active_le)
next
  case (updated s i partial)
  then show ?case by (blast intro: update_keyed_by_id update_active_le)
next
  case (logged s entry now)
  then show ?case
    by (simp add: keyed_by_id_def activeConfigs_def createQueryHistoryEntry_def Let_def)
next
  case (cleared s)
  then show ?case
    by (simp add: keyed_by_id_def activeConfigs_def clearQueryHistory_def)
qed

lemma map_of_Map_set:
  "map_of (Map_set k v m) k' = (if k' = k then Some v else map_of m k')"
  by (induction m) auto

lemma map_of_forEachValue: "map_of (forEachValue f m) k = map_option f (map_of m k)"
  by (induction m) (auto simp: forEachValue_def)

lemma create_result:
  "fst (createDatabaseConfig s config now) =
     \<lparr> cfg_id = currentConfigId s,
       cfg_name = new_name config,
       cfg_type = new_type config,
       cfg_connectionString = new_connectionString config,
       cfg_isActive = Some (case new_isActive config of None \<Rightarrow> False | Some b \<Rightarrow> b),
       cfg_createdAt = now \<rparr>"
  by (simp add: createDatabaseConfig_def Let_def)

lemma create_stored:
  "getDatabaseConfig (snd (createDatabaseConfig s config now)) (currentConfigId s) =
     Some (fst (createDatabaseConfig s config now))"
  by (simp add: getDatabaseConfig_def Map_get_def createDatabaseConfig_def Let_def
      map_of_Map_set)

lemma create_others_deactivated:
  assumes "new_isActive config = Some True" and "k \<noteq> currentConfigId s"
  shows "getDatabaseConfig (snd (createDatabaseConfig s config now)) k =
           map_option (\<lambda>c. c\<lparr>cfg_isActive := Some False\<rparr>) (getDatabaseConfig s k)"
  using assms
  by (simp add: getDatabaseConfig_def Map_get_def createDatabaseConfig_def Let_def
      map_of_Map_set map_of_forEachValue)

lemma create_others_kept:
  assumes "new_isActive config \<noteq> Some True" and "k \<noteq> currentConfigId s"
  shows "getDatabaseConfig (snd (createDatabaseConfig s config now)) k = getDatabaseConfig s k"
  using assms
  by (simp add: getDatabaseConfig_def Map_get_def createDatabaseConfig_def Let_def
      map_of_Map_set)

lemma create_active_is_created:
  assumes "new_isActive config = Some True"
  shows "activeConfigs (snd (createDatabaseConfig s config now)) =
           [fst (createDatabaseConfig s config now)]"
proof -
  let ?P = "\<lambda>c. cfg_isActive c = Some True"
  let ?m = "forEachValue (\<lambda>c. c\<lparr>cfg_isActive := Some False\<rparr>) (databaseConfigs s)"
  have "\<forall>c \<in> set (map snd ?m). \<not> ?P c"
    by (simp add: forEachValue_snd)
  then have "filter ?P (map snd (Map_set (currentConfigId s) v ?m)) = [v]" if "?P v" for v
    using that by (rule filter_Map_set_none)
  then show ?thesis
    using assms by (simp add: activeConfigs_def createDatabaseConfig_def Let_def Map_values_def)
qed

lemma update_result:
  assumes "getDatabaseConfig s i = Some existing"
  shows "fst (updateDatabaseConfig s i partial) =
     Some (existing
       \<lparr> cfg_name := (case upd_name partial of None \<Rightarrow> cfg_name existing | Some n \<Rightarrow> n),
         cfg_type := (case upd_type partial of None \<Rightarrow> cfg_type existing | Some t \<Rightarrow> t),
         cfg_connectionString :=
           (case upd_connectionString partial of
              None \<Rightarrow> cfg_connectionString existing | Some c \<Rightarrow> c),
         cfg_isActive :=
           (case upd_isActive partial of None \<Rightarrow> cfg_isActive existing | Some a \<Rightarrow> a) \<rparr>)"
  using assms
  by (simp add: getDatabaseConfig_def updateDatabaseConfig_def Let_def)

lemma update_stored:
  assumes "getDatabaseConfig s i = Some existing"
  shows "getDatabaseConfig (snd (updateDatabaseConfig s i partial)) i =
           fst (updateDatabaseConfig s i partial)"
  using assms
  by (simp add: getDatabaseConfig_def Map_get_def updateDatabaseConfig_def Let_def
      map_of_Map_set)

lemma update_others_deactivated:
  assumes wf: "keyed_by_id s"
    and ex: "getDatabaseConfig s i = Some existing"
    and act: "upd_isActive partial = Some (Some True)"
    and k: "k \<noteq> i"
  shows "getDatabaseConfig (snd (updateDatabaseConfig s i partial)) k =
           map_option (\<lambda>c. c\<lparr>cfg_isActive := Some False\<rparr>) (getDatabaseConfig s k)"
proof -
  let ?f = "\<lambda>c. if cfg_id c \<noteq> i then c\<lparr>cfg_isActive := Some False\<rparr> else c"
  have "map_option ?f (map_of (databaseConfigs s) k) =
          map_option (\<lambda>c. c\<lparr>cfg_isActive := Some False\<rparr>) (map_of (databaseConfigs s) k)"
  proof (cases "map_of (databaseConfigs s) k")
    case None
    then show ?thesis by simp
  next
    case (Some c)
    then have "(k, c) \<in> set (databaseConfigs s)" by (rule map_of_SomeD)
    with wf have "cfg_id c = k" by (rule keyed_by_id_key)
    with k Some show ?thesis by simp
  qed
  with ex act k show ?thesis
    by (simp add: getDatabaseConfig_def Map_get_def updateDatabaseConfig_def Let_def
        map_of_Map_set map_of_forEachValue)
qed

lemma update_active_is_updated:
  assumes wf: "keyed_by_id s"
    and ex: "getDatabaseConfig s i = Some existing"
    and act: "upd_isActive partial = Some (Some True)"
  shows "map Some (activeConfigs (snd (updateDatabaseConfig s i partial))) =
           [fst (updateDatabaseConfig s i partial)]"
proof -
  let ?P = "\<lambda>c. cfg_isActive c = Some True"
  let ?f = "\<lambda>c. if cfg_id c \<noteq> i then c\<lparr>cfg_isActive := Some False\<rparr> else c"
  let ?m = "forEachValue ?f (databaseConfigs s)"
  have mo: "map_of (databaseConfigs s) i = Some existing"
    using ex by (simp add: getDatabaseConfig_def Map_get_def)
  have d: "distinct (map fst ?m)"
    using wf by (simp add: forEachValue_fst keyed_by_id_def keyed_def)
  have "i \<in> fst ` set (databaseConfigs s)"
    using mo by (metis domI dom_map_of_conv_image_fst)
  then have k: "i \<in> fst ` set ?m"
    using forEachValue_fst [of ?f "databaseConfigs s"] by (metis set_map)
  have o: "\<forall>(k', c) \<in> set ?m. k' \<noteq> i \<longrightarrow> \<not> ?P c"
    using keyed_by_id_key [OF wf] by (auto simp: forEachValue_def)
  have "filter ?P (map snd (Map_set i v ?m)) = [v]" if "?P v" for v
    using d k o that by (rule filter_Map_set_others)
  then show ?thesis
    using mo act
    by (simp add: activeConfigs_def updateDatabaseConfig_def Let_def Map_values_def Map_get_def)
qed

text \<open>
  C4. At most one configuration is active in every store that the operations produce from
  a fresh one. Creating a configuration with \<open>isActive = true\<close>, whatever the store held
  before, stores the new configuration with the given fields under the next id, leaves it
  as the only active configuration, and keeps every other configuration, with \<open>isActive\<close>
  false. Updating a stored configuration with \<open>isActive = true\<close> does the same for the
  updated configuration, in every store whose configurations sit under their own ids,
  however many were active before.
\<close>

theorem single_active_configuration:
  "(reachable s \<longrightarrow> length (activeConfigs s) \<le> 1) \<and>
   (new_isActive config = Some True \<longrightarrow>
      length (activeConfigs (snd (createDatabaseConfig s config now))) = 1 \<and>
      fst (createDatabaseConfig s config now) =
        \<lparr> cfg_id = currentConfigId s,
          cfg_name = new_name config,
          cfg_type = new_type config,
          cfg_connectionString = new_connectionString config,
          cfg_isActive = Some True,
          cfg_createdAt = now \<rparr> \<and>
      activeConfigs (snd (createDatabaseConfig s config now)) =
        [fst (createDatabaseConfig s config now)] \<and>
      getDatabaseConfig (snd (createDatabaseConfig s config now)) (currentConfigId s) =
        Some (fst (createDatabaseConfig s config now)) \<and>
      (k \<noteq> currentConfigId s \<longrightarrow>
         getDatabaseConfig (snd (createDatabaseConfig s config now)) k =
           map_option (\<lambda>c. c\<lparr>cfg_isActive := Some False\<rparr>) (getDatabaseConfig s k))) \<and>
   (keyed_by_id s \<and> getDatabaseConfig s i \<noteq> None \<and> upd_isActive partial = Some (Some True) \<longrightarrow>
      length (activeConfigs (snd (updateDatabaseConfig s i partial))) = 1 \<and>
      (\<exists>existing updated.
         getDatabaseConfig s i = Some existing \<and>
         updated =
           existing
             \<lparr> cfg_name := (case upd_name partial of None \<Rightarrow> cfg_name existing | Some n \<Rightarrow> n),
               cfg_type := (case upd_type partial of None \<Rightarrow> cfg_type existing | Some t \<Rightarrow> t),
               cfg_connectionString :=
                 (case upd_connectionString partial of
                    None \<Rightarrow> cfg_connectionString existing | Some c \<Rightarrow> c),
               cfg_isActive := Some True \<rparr> \<and>
         fst (updateDatabaseConfig s i partial) = Some updated \<and>
         activeConfigs (snd (updateDatabaseConfig s i partial)) = [updated] \<and>
         getDatabaseConfig (snd (updateDatabaseConfig s i partial)) i = Some updated) \<and>
      (j \<noteq> i \<longrightarrow>
         getDatabaseConfig (snd (updateDatabaseConfig s i partial)) j =
           map_option (\<lambda>c. c\<lparr>cfg_isActive := Some False\<rparr>) (getDatabaseConfig s j)))"
proof -
  have c: ?thesis if "reachable s \<longrightarrow> length (activeConfigs s) \<le> 1"
    and "new_isActive config = Some True \<longrightarrow>
      length (activeConfigs (snd (createDatabaseConfig s config now))) = 1 \<and>
      fst (createDatabaseConfig s config now) =
        \<lparr> cfg_id = currentConfigId s,
          cfg_name = new_name config,
          cfg_type = new_type config,
          cfg_connectionString = new_connectionString config,
          cfg_isActive = Some True,
          cfg_createdAt = now \<rparr> \<and>
      activeConfigs (snd (createDatabaseConfig s config now)) =
        [fst (createDatabaseConfig s config now)] \<and>
      getDatabaseConfig (snd (createDatabaseConfig s config now)) (currentConfigId s) =
        Some (fst (createDatabaseConfig s config now)) \<and>
      (k \<noteq> currentConfigId s \<longrightarrow>
         getDatabaseConfig (snd (createDatabaseConfig s config now)) k =
           map_option (\<lambda>c. c\<lparr>cfg_isActive := Some False\<rparr>) (getDatabaseConfig s k))"
    and "keyed_by_id s \<and> getDatabaseConfig s i \<noteq> None \<and> upd_isActive partial = Some (Some True) \<longrightarrow>
      length (activeConfigs (snd (updateDatabaseConfig s i partial))) = 1 \<and>
      (\<exists>existing updated.
         getDatabaseConfig s i = Some existing \<and>
         updated =
           existing
             \<lparr> cfg_name := (case upd_name partial of None \<Rightarrow> cfg_name existing | Some n \<Rightarrow> n),
               cfg_type := (case upd_type partial of None \<Rightarrow> cfg_type existing | Some t \<Rightarrow> t),
               cfg_connectionString :=
                 (case upd_connectionString partial of
                    None \<Rightarrow> cfg_connectionString existing | Some c \<Rightarrow> c),
               cfg_isActive := Some True \<rparr> \<and>
         fst (updateDatabaseConfig s i partial) = Some updated \<and>
         activeConfigs (snd (updateDatabaseConfig s i partial)) = [updated] \<and>
         getDatabaseConfig (snd (updateDatabaseConfig s i partial)) i = Some updated) \<and>
      (j \<noteq> i \<longrightarrow>
         getDatabaseConfig (snd (updateDatabaseConfig s i partial)) j =
           map_option (\<lambda>c. c\<lparr>cfg_isActive := Some False\<rparr>) (getDatabaseConfig s j))"
    using that by blast
  show ?thesis
  proof (rule c)
    show "reachable s \<longrightarrow> length (activeConfigs s) \<le> 1"
      using reachable_invariant [of s] by blast
  next
    show "new_isActive config = Some True \<longrightarrow>
      length (activeConfigs (snd (createDatabaseConfig s config now))) = 1 \<and>
      fst (createDatabaseConfig s config now) =
        \<lparr> cfg_id = currentConfigId s,
          cfg_name = new_name config,
          cfg_type = new_type config,
          cfg_connectionString = new_connectionString config,
          cfg_isActive = Some True,
          cfg_createdAt = now \<rparr> \<and>
      activeConfigs (snd (createDatabaseConfig s config now)) =
        [fst (createDatabaseConfig s config now)] \<and>
      getDatabaseConfig (snd (createDatabaseConfig s config now)) (currentConfigId s) =
        Some (fst (createDatabaseConfig s config now)) \<and>
      (k \<noteq> currentConfigId s \<longrightarrow>
         getDatabaseConfig (snd (createDatabaseConfig s config now)) k =
           map_option (\<lambda>c. c\<lparr>cfg_isActive := Some False\<rparr>) (getDatabaseConfig s k))"
    proof
      assume a: "new_isActive config = Some True"
      have "fst (createDatabaseConfig s config now) =
        \<lparr> cfg_id = currentConfigId s,
          cfg_name = new_name config,
          cfg_type = new_type config,
          cfg_connectionString = new_connectionString config,
          cfg_isActive = Some True,
          cfg_createdAt = now \<rparr>"
        using a by (simp add: create_result)
      then show "length (activeConfigs (snd (createDatabaseConfig s config now))) = 1 \<and>
      fst (createDatabaseConfig s config now) =
        \<lparr> cfg_id = currentConfigId s,
          cfg_name = new_name config,
          cfg_type = new_type config,
          cfg_connectionString = new_connectionString config,
          cfg_isActive = Some True,
          cfg_createdAt = now \<rparr> \<and>
      activeConfigs (snd (createDatabaseConfig s config now)) =
        [fst (createDatabaseConfig s config now)] \<and>
      getDatabaseConfig (snd (createDatabaseConfig s config now)) (currentConfigId s) =
        Some (fst (createDatabaseConfig s config now)) \<and>
      (k \<noteq> currentConfigId s \<longrightarrow>
         getDatabaseConfig (snd (createDatabaseConfig s config now)) k =
           map_option (\<lambda>c. c\<lparr>cfg_isActive := Some False\<rparr>) (getDatabaseConfig s k))"
        using create_active_one [OF a, of s now] create_active_is_created [OF a, of s now]
          create_stored [of s config now] create_others_deactivated [OF a, of k s now]
        by blast
    qed
  next
    show "keyed_by_id s \<and> getDatabaseConfig s i \<noteq> None \<and> upd_isActive partial = Some (Some True) \<longrightarrow>
      length (activeConfigs (snd (updateDatabaseConfig s i partial))) = 1 \<and>
      (\<exists>existing updated.
         getDatabaseConfig s i = Some existing \<and>
         updated =
           existing
             \<lparr> cfg_name := (case upd_name partial of None \<Rightarrow> cfg_name existing | Some n \<Rightarrow> n),
               cfg_type := (case upd_type partial of None \<Rightarrow> cfg_type existing | Some t \<Rightarrow> t),
               cfg_connectionString :=
                 (case upd_connectionString partial of
                    None \<Rightarrow> cfg_connectionString existing | Some c \<Rightarrow> c),
               cfg_isActive := Some True \<rparr> \<and>
         fst (updateDatabaseConfig s i partial) = Some updated \<and>
         activeConfigs (snd (updateDatabaseConfig s i partial)) = [updated] \<and>
         getDatabaseConfig (snd (updateDatabaseConfig s i partial)) i = Some updated) \<and>
      (j \<noteq> i \<longrightarrow>
         getDatabaseConfig (snd (updateDatabaseConfig s i partial)) j =
           map_option (\<lambda>c. c\<lparr>cfg_isActive := Some False\<rparr>) (getDatabaseConfig s j))"
    proof
      assume h: "keyed_by_id s \<and> getDatabaseConfig s i \<noteq> None \<and>
         upd_isActive partial = Some (Some True)"
      then obtain existing where ex: "getDatabaseConfig s i = Some existing" by auto
      from h have wf: "keyed_by_id s" and act: "upd_isActive partial = Some (Some True)"
        by simp_all
      define updated where "updated =
           existing
             \<lparr> cfg_name := (case upd_name partial of None \<Rightarrow> cfg_name existing | Some n \<Rightarrow> n),
               cfg_type := (case upd_type partial of None \<Rightarrow> cfg_type existing | Some t \<Rightarrow> t),
               cfg_connectionString :=
                 (case upd_connectionString partial of
                    None \<Rightarrow> cfg_connectionString existing | Some c \<Rightarrow> c),
               cfg_isActive := Some True \<rparr>"
      have r: "fst (updateDatabaseConfig s i partial) = Some updated"
        using update_result [OF ex, of partial] act by (simp add: updated_def)
      have "map Some (activeConfigs (snd (updateDatabaseConfig s i partial))) =
              [Some updated]"
        using update_active_is_updated [OF wf ex act] r by simp
      then have l: "activeConfigs (snd (updateDatabaseConfig s i partial)) = [updated]"
        by (metis list.simps(8) list.simps(9) list.inj_map_strong option.inject)
      have g: "getDatabaseConfig (snd (updateDatabaseConfig s i partial)) i = Some updated"
        using update_stored [OF ex, of partial] r by simp
      show "length (activeConfigs (snd (updateDatabaseConfig s i partial))) = 1 \<and>
      (\<exists>existing updated.
         getDatabaseConfig s i = Some existing \<and>
         updated =
           existing
             \<lparr> cfg_name := (case upd_name partial of None \<Rightarrow> cfg_name existing | Some n \<Rightarrow> n),
               cfg_type := (case upd_type partial of None \<Rightarrow> cfg_type existing | Some t \<Rightarrow> t),
               cfg_connectionString :=
                 (case upd_connectionString partial of
                    None \<Rightarrow> cfg_connectionString existing | Some c \<Rightarrow> c),
               cfg_isActive := Some True \<rparr> \<and>
         fst (updateDatabaseConfig s i partial) = Some updated \<and>
         activeConfigs (snd (updateDatabaseConfig s i partial)) = [updated] \<and>
         getDatabaseConfig (snd (updateDatabaseConfig s i partial)) i = Some updated) \<and>
      (j \<noteq> i \<longrightarrow>
         getDatabaseConfig (snd (updateDatabaseConfig s i partial)) j =
           map_option (\<lambda>c. c\<lparr>cfg_isActive := Some False\<rparr>) (getDatabaseConfig s j))"
        using update_active_one [OF wf ex act] ex r l g updated_def
          update_others_deactivated [OF wf ex act, of j]
        by blast
    qed
  qed
qed

theorem single_active_configuration_witness:
  "reachable fresh_store \<and> length (activeConfigs fresh_store) \<le> 1 \<and>
   new_isActive sqlserver_config = Some True \<and>
   length (activeConfigs two_active_store) = 2 \<and>
   length (activeConfigs (snd (createDatabaseConfig two_active_store sqlserver_config 5))) = 1 \<and>
   map cfg_name (activeConfigs (snd (createDatabaseConfig two_active_store sqlserver_config 5))) =
     [js ''Reporting''] \<and>
   map_option cfg_name
     (getDatabaseConfig (snd (createDatabaseConfig two_active_store sqlserver_config 5)) 3) =
     Some (js ''Reporting'') \<and>
   map_option cfg_isActive
     (getDatabaseConfig (snd (createDatabaseConfig two_active_store sqlserver_config 5)) 1) =
     Some (Some False) \<and>
   keyed_by_id two_active_store \<and> getDatabaseConfig two_active_store 2 \<noteq> None \<and>
   upd_isActive activate = Some (Some True) \<and>
   length (activeConfigs (snd (updateDatabaseConfig two_active_store 2 activate))) = 1 \<and>
   map cfg_name (activeConfigs (snd (updateDatabaseConfig two_active_store 2 activate))) =
     [js ''B''] \<and>
   map_option cfg_isActive
     (getDatabaseConfig (snd (updateDatabaseConfig two_active_store 2 activate)) 1) =
     Some (Some False)"
proof -
  have r: "reachable fresh_store"
    unfolding fresh_store_def by (rule reachable.fresh)
  have a: "new_isActive sqlserver_config = Some True"
    by (simp add: sqlserver_config_def)
  have n: "length (activeConfigs two_active_store) = 2"
    by (simp add: activeConfigs_def two_active_store_def Map_values_def)
  have k: "keyed_by_id two_active_store"
    by (simp add: keyed_by_id_def keyed_def two_active_store_def)
  have g: "getDatabaseConfig two_active_store 2 \<noteq> None"
    by (simp add: getDatabaseConfig_def Map_get_def two_active_store_def)
  have u: "upd_isActive activate = Some (Some True)"
    by (simp add: activate_def)
  have c: "currentConfigId two_active_store = 3"
    by (simp add: two_active_store_def)
  have g1: "map_option cfg_isActive
      (map_option (\<lambda>c. c\<lparr>cfg_isActive := Some False\<rparr>) (getDatabaseConfig two_active_store 1)) =
      Some (Some False)"
    by (simp add: getDatabaseConfig_def Map_get_def two_active_store_def)
  have g2: "map_option cfg_name (getDatabaseConfig two_active_store 2) = Some (js ''B'')"
    by (simp add: getDatabaseConfig_def Map_get_def two_active_store_def)
  have nm: "new_name sqlserver_config = js ''Reporting''"
    by (simp add: sqlserver_config_def)
  have un: "upd_name activate = None"
    by (simp add: activate_def)
  note t = single_active_configuration [of two_active_store sqlserver_config 5 1 2 activate 1]
  have t1: "length (activeConfigs (snd (createDatabaseConfig two_active_store sqlserver_config 5))) = 1"
    and t2: "map cfg_name
        (activeConfigs (snd (createDatabaseConfig two_active_store sqlserver_config 5))) =
        [js ''Reporting'']"
    and t3: "map_option cfg_name
       (getDatabaseConfig (snd (createDatabaseConfig two_active_store sqlserver_config 5)) 3) =
       Some (js ''Reporting'')"
    and t4: "map_option cfg_isActive
       (getDatabaseConfig (snd (createDatabaseConfig two_active_store sqlserver_config 5)) 1) =
       Some (Some False)"
    using t a c g1 nm by simp_all
  have t5: "length (activeConfigs (snd (updateDatabaseConfig two_active_store 2 activate))) = 1"
    and t7: "map_option cfg_isActive
       (getDatabaseConfig (snd (updateDatabaseConfig two_active_store 2 activate)) 1) =
       Some (Some False)"
    using t k g u g1 by simp_all
  have t6: "map cfg_name (activeConfigs (snd (updateDatabaseConfig two_active_store 2 activate))) =
     [js ''B'']"
    using t k g u g2 un by auto
  show ?thesis
    using r a n k g u t1 t2 t3 t4 t5 t6 t7
      single_active_configuration [of fresh_store sqlserver_config 5 1 1 activate 1]
    by simp
qed

lemma slice0_take: "\<exists>k. slice0 xs e = take k xs"
proof (cases e)
  case NaN
  then have "slice0 xs e = take 0 xs" by (simp add: slice0_def)
  then show ?thesis ..
next
  case PosInfinity
  then have "slice0 xs e = take (length xs) xs" by (simp add: slice0_def)
  then show ?thesis ..
next
  case NegInfinity
  then have "slice0 xs e = take 0 xs" by (simp add: slice0_def)
  then show ?thesis ..
next
  case (Num n)
  show ?thesis
  proof (cases "n < 0")
    case True
    with Num have "slice0 xs e = take (nat (max (int (length xs) + n) 0)) xs"
      by (simp add: slice0_def)
    then show ?thesis ..
  next
    case False
    with Num have "slice0 xs e = take (nat (min n (int (length xs)))) xs"
      by (simp add: slice0_def)
    then show ?thesis ..
  qed
qed

lemma getQueryHistory_default_length: "length (getQueryHistory s None) \<le> 50"
  by (simp add: getQueryHistory_def slice0_def)

lemma getQueryHistory_length:
  "0 \<le> n \<Longrightarrow> length (getQueryHistory s (Some (Num n))) \<le> nat n"
  by (simp add: getQueryHistory_def slice0_def)

lemma newest_first_sorted:
  "sorted_wrt (\<lambda>a b. qh_createdAt b \<le> qh_createdAt a) (sort_key (\<lambda>e. - qh_createdAt e) xs)"
proof -
  have "sorted (map (\<lambda>e. - qh_createdAt e) (sort_key (\<lambda>e. - qh_createdAt e) xs))"
    by (rule sorted_sort_key)
  then show ?thesis by (simp add: sorted_map)
qed

lemma getQueryHistory_sorted:
  "sorted_wrt (\<lambda>a b. qh_createdAt b \<le> qh_createdAt a) (getQueryHistory s limit)"
proof -
  obtain k where "getQueryHistory s limit =
      take k (sort_key (\<lambda>e. - qh_createdAt e) (Map_values (queryHistory s)))"
    unfolding getQueryHistory_def Let_def using slice0_take by blast
  then show ?thesis
    by (simp add: newest_first_sorted sorted_wrt_take)
qed

lemma getQueryHistory_subset:
  "set (getQueryHistory s limit) \<subseteq> set (Map_values (queryHistory s))"
proof -
  obtain k where "getQueryHistory s limit =
      take k (sort_key (\<lambda>e. - qh_createdAt e) (Map_values (queryHistory s)))"
    unfolding getQueryHistory_def Let_def using slice0_take by blast
  then show ?thesis
    using set_take_subset [of k "sort_key (\<lambda>e. - qh_createdAt e) (Map_values (queryHistory s))"]
    by simp
qed

lemma getQueryHistory_full:
  "getQueryHistory s (Some PosInfinity) =
     sort_key (\<lambda>e. - qh_createdAt e) (Map_values (queryHistory s))"
  by (simp add: getQueryHistory_def slice0_def)

lemma getQueryHistory_take:
  "getQueryHistory s (Some (Num (int k))) = take k (getQueryHistory s (Some PosInfinity))"
  by (simp add: getQueryHistory_def slice0_def min_def)

lemma getQueryHistory_default_take:
  "getQueryHistory s None = take 50 (getQueryHistory s (Some PosInfinity))"
  by (simp add: getQueryHistory_def slice0_def min_def)

lemma bitLength_le: "n < 2 ^ k \<Longrightarrow> bitLength n \<le> k"
proof (induction k arbitrary: n)
  case 0
  then show ?case by (simp add: bitLength.simps)
next
  case (Suc k)
  show ?case
  proof (cases "n = 0")
    case True
    then show ?thesis by (simp add: bitLength.simps)
  next
    case False
    from Suc.prems have "n div 2 < 2 ^ k" by simp
    then have "bitLength (n div 2) \<le> k" by (rule Suc.IH)
    with False show ?thesis by (subst bitLength.simps) simp
  qed
qed

lemma toDouble_exact:
  assumes "n < 2 ^ 53"
  shows "toDouble negative n = Num (if negative then - int n else int n)"
proof -
  have "bitLength n - 53 = 0"
    using bitLength_le [OF assms] by simp
  moreover have "n < 2 ^ 1024"
    using assms by (rule less_le_trans) simp
  ultimately show ?thesis
    by (simp add: toDouble_def Let_def)
qed

lemma asciiParseInt_2: "parseInt ascii_runtime (js ''2'') = Num 2"
proof -
  have "toDouble False (Suc (Suc 0)) = Num 2"
    using toDouble_exact [of "Suc (Suc 0)" False] by simp
  then show ?thesis
    by (simp add: ascii_runtime_def asciiParseInt_def js_def isWhiteSpace_def isDigit_def
        digitOf_def digitsValue_def Let_def)
qed

text \<open>
  C6. The listing is ordered by time of creation, newest first, and holds only stored
  entries. With a limit of \<open>k\<close> records it is the first \<open>k\<close> entries of the whole history
  in that order, so it has at most \<open>k\<close> entries and they are the newest; with no limit it
  is the first 50. The listing without an effective limit holds every stored entry once.
  The route passes the number read from \<open>limit\<close>, and 50 when there is no \<open>limit\<close>.
\<close>

theorem history_listing_bounded_newest_first:
  "sorted_wrt (\<lambda>a b. qh_createdAt b \<le> qh_createdAt a) (getQueryHistory s limit) \<and>
   set (getQueryHistory s limit) \<subseteq> set (Map_values (queryHistory s)) \<and>
   mset (getQueryHistory s (Some PosInfinity)) = mset (Map_values (queryHistory s)) \<and>
   getQueryHistory s (Some (Num (int k))) = take k (getQueryHistory s (Some PosInfinity)) \<and>
   getQueryHistory s None = take 50 (getQueryHistory s (Some PosInfinity)) \<and>
   length (getQueryHistory s (Some (Num (int k)))) \<le> k \<and>
   length (getQueryHistory s None) \<le> 50 \<and>
   (0 \<le> n \<longrightarrow> length (getQueryHistory s (Some (Num n))) \<le> nat n) \<and>
   fst (historyRoute e None st) =
     \<lparr> statusCode = 200, body = History (getQueryHistory (storage st) None) \<rparr> \<and>
   (t \<noteq> [] \<and> parseInt (rt e) t = Num (int k) \<longrightarrow>
      fst (historyRoute e (Some t) st) =
        \<lparr> statusCode = 200,
          body = History (take k (getQueryHistory (storage st) (Some PosInfinity))) \<rparr>)"
proof -
  have "getQueryHistory s' (Some (Num 50)) = getQueryHistory s' None" for s'
    by (simp add: getQueryHistory_def)
  then have r: "fst (historyRoute e None st) =
     \<lparr> statusCode = 200, body = History (getQueryHistory (storage st) None) \<rparr>"
    by (simp add: historyRoute_def)
  have m: "mset (getQueryHistory s (Some PosInfinity)) = mset (Map_values (queryHistory s))"
    by (simp add: getQueryHistory_full)
  have l: "length (getQueryHistory s (Some (Num (int k)))) \<le> k"
    using getQueryHistory_length [of "int k" s] by simp
  have p: "fst (historyRoute e (Some t) st) =
        \<lparr> statusCode = 200,
          body = History (take k (getQueryHistory (storage st) (Some PosInfinity))) \<rparr>"
    if "t \<noteq> []" and "parseInt (rt e) t = Num (int k)"
    using that by (simp add: historyRoute_def getQueryHistory_take)
  show ?thesis
    using getQueryHistory_sorted [of s limit] getQueryHistory_subset [of s limit]
      getQueryHistory_default_length [of s] getQueryHistory_length [of n s]
      getQueryHistory_take [of s k] getQueryHistory_default_take [of s] r m l p
    by simp
qed

theorem history_listing_bounded_newest_first_witness:
  "(0::int) \<le> 2 \<and>
   length (getQueryHistory logged_store (Some (Num 2))) \<le> 2 \<and>
   map qh_createdAt (getQueryHistory logged_store (Some (Num 2))) = [30, 20] \<and>
   map qh_createdAt (getQueryHistory logged_store None) = [30, 20, 10] \<and>
   js ''2'' \<noteq> [] \<and> parseInt (rt (stub_env [] three_rows)) (js ''2'') = Num (int 2) \<and>
   fst (historyRoute (stub_env [] three_rows) (Some (js ''2'')) (request_state logged_store)) =
     \<lparr> statusCode = 200,
       body = History (take 2 (getQueryHistory logged_store (Some PosInfinity))) \<rparr>"
proof -
  have a: "map qh_createdAt (getQueryHistory logged_store (Some (Num 2))) = [30, 20]"
    by code_simp
  have b: "map qh_createdAt (getQueryHistory logged_store None) = [30, 20, 10]"
    by code_simp
  have c: "js ''2'' \<noteq> [] \<and> parseInt (rt (stub_env [] three_rows)) (js ''2'') = Num (int 2)"
    using asciiParseInt_2 by (simp add: stub_env_def js_def)
  show ?thesis
    using a b c
      history_listing_bounded_newest_first
        [of logged_store "Some (Num 2)" 2 2 "stub_env [] three_rows"
            "request_state logged_store" "js ''2''"]
    by (simp add: request_state_def)
qed

text \<open>A negative limit counts from the end of the listing: \<open>slice(0, -1)\<close> leaves out
  the oldest entry.\<close>

lemma negative_limit_drops_oldest:
  "map qh_createdAt (getQueryHistory logged_store (Some (Num (- 1)))) = [30, 20]"
  by code_simp

text \<open>
  C8. Clearing the history and then listing it gives the empty list, for every store and
  every limit: also right after an entry was recorded, and through the routes after an
  execute request.
\<close>

theorem clear_then_list_is_empty:
  "getQueryHistory (clearQueryHistory s) limit = [] \<and>
   getQueryHistory (clearQueryHistory (snd (createQueryHistoryEntry s entry now))) limit = [] \<and>
   fst (historyRoute e reqLimit (snd (clearHistoryRoute e st))) =
     \<lparr> statusCode = 200, body = History [] \<rparr> \<and>
   fst (historyRoute e reqLimit (snd (clearHistoryRoute e (snd (executeRoute e reqQuery st))))) =
     \<lparr> statusCode = 200, body = History [] \<rparr>"
proof -
  have "slice0 [] x = ([] :: QueryHistory list)" for x
    by (cases x) (simp_all add: slice0_def)
  then show ?thesis
    by (simp add: getQueryHistory_def clearQueryHistory_def historyRoute_def
        clearHistoryRoute_def Map_values_def Let_def)
qed

section \<open>Properties of the connections\<close>

lemma executionError_embeds:
  "\<exists>m. executionError ms err = Error m \<and>
       m = js ''Query execution failed ('' @ numberToString ms @ js ''ms): '' @
           messageOr err (js ''Unknown error'') \<and>
       str_includes m (numberToString ms) \<and>
       str_includes m (messageOr err (js ''Unknown error''))"
proof -
  let ?m = "js ''Query execution failed ('' @ numberToString ms @ js ''ms): '' @
           messageOr err (js ''Unknown error'')"
  have "sublist (numberToString ms) ?m"
    by (rule sublist_appendI)
  moreover have "sublist (messageOr err (js ''Unknown error''))
      ((js ''Query execution failed ('' @ numberToString ms @ js ''ms): '') @
        messageOr err (js ''Unknown error''))"
    by (rule sublist_append_leftI)
  ultimately show ?thesis
    by (simp add: executionError_def str_includes_sublist)
qed

lemma PostgreSQL_executeQuery_fails:
  "pg_query e (pg_connectionString c) q = Inl err \<Longrightarrow>
   PostgreSQL_executeQuery e c q st =
     (Inl (executionError (dateNow e (Suc (clockReads st)) - dateNow e (clockReads st)) err),
      PostgreSQL_getPool c,
      st\<lparr> clockReads := Suc (Suc (clockReads st)),
          events := events st @ [ExecuteQuery (pg_handle c) q, PoolQuery (pg_handle c) q] \<rparr>)"
  by (simp add: PostgreSQL_executeQuery_def PostgreSQL_getPool_def tick_def log_def Let_def)

lemma PostgreSQL_executeQuery_succeeds:
  "pg_query e (pg_connectionString c) q = Inr res \<Longrightarrow>
   PostgreSQL_executeQuery e c q st =
     (Inr \<lparr> recordset = (case pg_rows res of None \<Rightarrow> [] | Some r \<Rightarrow> r),
            rowsAffected = [case pg_rowCount res of None \<Rightarrow> 0 | Some n \<Rightarrow> n],
            executionTime = dateNow e (Suc (clockReads st)) - dateNow e (clockReads st) \<rparr>,
      PostgreSQL_getPool c,
      st\<lparr> clockReads := Suc (Suc (clockReads st)),
          events := events st @ [ExecuteQuery (pg_handle c) q, PoolQuery (pg_handle c) q] \<rparr>)"
  by (simp add: PostgreSQL_executeQuery_def PostgreSQL_getPool_def tick_def log_def Let_def)

lemma SQLServer_executeQuery_query_fails:
  "ss_pool c \<or> mssql_connect e (ss_config c) = None \<Longrightarrow>
   mssql_query e (ss_config c) q = Inl err \<Longrightarrow>
   fst (SQLServer_executeQuery e c q st) =
     Inl (executionError (dateNow e (Suc (clockReads st)) - dateNow e (clockReads st)) err)"
  by (auto simp: SQLServer_executeQuery_def SQLServer_getPool_def tick_def log_def Let_def)

lemma SQLServer_executeQuery_connect_fails:
  "\<not> ss_pool c \<Longrightarrow> mssql_connect e (ss_config c) = Some err \<Longrightarrow>
   fst (SQLServer_executeQuery e c q st) =
     Inl (executionError (dateNow e (Suc (clockReads st)) - dateNow e (clockReads st)) err)"
  by (auto simp: SQLServer_executeQuery_def SQLServer_getPool_def tick_def log_def Let_def)

text \<open>
  C7 (as amended). For both kinds of connection, when the driver call fails (the query of
  either driver, or the connect of the SQL Server pool), \<open>executeQuery\<close> throws an
  \<open>Error\<close> of one format. Its message holds the time elapsed between the reading of the
  clock at entry and the reading after the failure, followed by the message of the failure
  when what the driver threw is an \<open>Error\<close> instance, and by the text \<open>Unknown error\<close>
  when it is any other value, of which nothing is embedded.
\<close>

theorem executeQuery_failure_is_uniform:
  "(pg_query e (pg_connectionString c) q = Inl err \<longrightarrow>
      fst (executeQuery e (PostgreSQL c) q st) =
        Inl (executionError (dateNow e (Suc (clockReads st)) - dateNow e (clockReads st)) err)) \<and>
   ((ss_pool c' \<or> mssql_connect e (ss_config c') = None) \<and>
    mssql_query e (ss_config c') q = Inl err \<longrightarrow>
      fst (executeQuery e (SQLServer c') q st) =
        Inl (executionError (dateNow e (Suc (clockReads st)) - dateNow e (clockReads st)) err)) \<and>
   (\<not> ss_pool c' \<and> mssql_connect e (ss_config c') = Some err \<longrightarrow>
      fst (executeQuery e (SQLServer c') q st) =
        Inl (executionError (dateNow e (Suc (clockReads st)) - dateNow e (clockReads st)) err)) \<and>
   (\<exists>m. executionError ms err = Error m \<and>
        m = js ''Query execution failed ('' @ numberToString ms @ js ''ms): '' @
            messageOr err (js ''Unknown error'') \<and>
        str_includes m (numberToString ms) \<and>
        str_includes m (messageOr err (js ''Unknown error''))) \<and>
   executionError ms (Error msg) =
     Error (js ''Query execution failed ('' @ numberToString ms @ js ''ms): '' @ msg) \<and>
   executionError ms (ZodError msg) =
     Error (js ''Query execution failed ('' @ numberToString ms @ js ''ms): '' @ msg) \<and>
   executionError ms (NonError v) =
     Error (js ''Query execution failed ('' @ numberToString ms @ js ''ms): Unknown error'')"
proof -
  have "executionError ms (Error msg) =
     Error (js ''Query execution failed ('' @ numberToString ms @ js ''ms): '' @ msg)"
    and "executionError ms (ZodError msg) =
     Error (js ''Query execution failed ('' @ numberToString ms @ js ''ms): '' @ msg)"
    and "executionError ms (NonError v) =
     Error (js ''Query execution failed ('' @ numberToString ms @ js ''ms): Unknown error'')"
    by (simp_all add: executionError_def js_def)
  then show ?thesis
    using executionError_embeds [of ms err]
      PostgreSQL_executeQuery_fails [of e c q err st]
      SQLServer_executeQuery_query_fails [of c' e q err st]
      SQLServer_executeQuery_connect_fails [of c' e err q st]
    by (auto simp: split_def Let_def)
qed

theorem executeQuery_failure_is_uniform_witness:
  "fst (executeQuery (stub_env [] unreachable_backend)
          (PostgreSQL (new_PostgreSQLConnection 1 (JString (js ''postgresql://db/x'')))) (js ''SELECT 1'')
          (request_state fresh_store)) =
     Inl (Error (js ''Query execution failed (7ms): connection refused'')) \<and>
   fst (executeQuery (stub_env [] unreachable_backend)
          (SQLServer (new_SQLServerConnection 2 (js ''Server=db1''))) (js ''SELECT 1'')
          (request_state fresh_store)) =
     Inl (Error (js ''Query execution failed (7ms): no server'')) \<and>
   fst (executeQuery ((stub_env [] unreachable_backend)\<lparr> mssql_connect := (\<lambda>c. None) \<rparr>)
          (SQLServer (new_SQLServerConnection 2 (js ''Server=db1''))) (js ''SELECT 1'')
          (request_state fresh_store)) =
     Inl (Error (js ''Query execution failed (7ms): no server''))"
proof -
  let ?e = "stub_env [] unreachable_backend"
  let ?e' = "?e\<lparr> mssql_connect := (\<lambda>c. None) \<rparr>"
  let ?st = "request_state fresh_store"
  let ?p = "new_PostgreSQLConnection 1 (JString (js ''postgresql://db/x''))"
  let ?s = "new_SQLServerConnection 2 (js ''Server=db1'')"
  have n: "numberToString 7 = js ''7''"
    by (simp add: numberToString_def natToString.simps js_def)
  have t: "dateNow ?e (Suc (clockReads ?st)) - dateNow ?e (clockReads ?st) = 7"
    "dateNow ?e' (Suc (clockReads ?st)) - dateNow ?e' (clockReads ?st) = 7"
    by (simp_all add: stub_env_def request_state_def)
  have m: "executionError 7 (Error (js ''connection refused'')) =
             Error (js ''Query execution failed (7ms): connection refused'')"
    "executionError 7 (Error (js ''no server'')) =
             Error (js ''Query execution failed (7ms): no server'')"
    by (simp_all add: executionError_def n js_def)
  have a: "pg_query ?e (pg_connectionString ?p) (js ''SELECT 1'') =
             Inl (Error (js ''connection refused''))"
    by (simp add: stub_env_def unreachable_backend_def)
  have b: "\<not> ss_pool ?s \<and> mssql_connect ?e (ss_config ?s) = Some (Error (js ''no server''))"
    by (simp add: stub_env_def new_SQLServerConnection_def Let_def)
  have c: "(ss_pool ?s \<or> mssql_connect ?e' (ss_config ?s) = None) \<and>
           mssql_query ?e' (ss_config ?s) (js ''SELECT 1'') = Inl (Error (js ''no server''))"
    by (simp add: stub_env_def)
  have p1: "fst (executeQuery ?e (PostgreSQL ?p) (js ''SELECT 1'') ?st) =
      Inl (executionError (dateNow ?e (Suc (clockReads ?st)) - dateNow ?e (clockReads ?st))
             (Error (js ''connection refused'')))"
    using a
      executeQuery_failure_is_uniform
        [where e = ?e and c = ?p and c' = ?s and q = "js ''SELECT 1''" and st = ?st
           and err = "Error (js ''connection refused'')" and ms = 7 and msg = "[]"
           and v = JNull]
    by blast
  have p2: "fst (executeQuery ?e (SQLServer ?s) (js ''SELECT 1'') ?st) =
      Inl (executionError (dateNow ?e (Suc (clockReads ?st)) - dateNow ?e (clockReads ?st))
             (Error (js ''no server'')))"
    using b
      executeQuery_failure_is_uniform
        [where e = ?e and c = ?p and c' = ?s and q = "js ''SELECT 1''" and st = ?st
           and err = "Error (js ''no server'')" and ms = 7 and msg = "[]" and v = JNull]
    by blast
  have p3: "fst (executeQuery ?e' (SQLServer ?s) (js ''SELECT 1'') ?st) =
      Inl (executionError (dateNow ?e' (Suc (clockReads ?st)) - dateNow ?e' (clockReads ?st))
             (Error (js ''no server'')))"
    using c
      executeQuery_failure_is_uniform
        [where e = ?e' and c = ?p and c' = ?s and q = "js ''SELECT 1''" and st = ?st
           and err = "Error (js ''no server'')" and ms = 7 and msg = "[]" and v = JNull]
    by blast
  show ?thesis
    using p1 p2 p3 by (simp only: t m)
qed

text \<open>
  C7 as stated fails when the driver rejects with a value that is not an \<open>Error\<close>
  instance: for the string \<open>boom\<close> the message ends in \<open>Unknown error\<close> and holds
  nothing of what was thrown.
\<close>

theorem non_error_failure_counterexample:
  "pg_query (stub_env [] boom_backend) (JString (js ''postgresql://db/x'')) (js ''SELECT 1'') =
     Inl (NonError (JString (js ''boom''))) \<and>
   fst (executeQuery (stub_env [] boom_backend)
          (PostgreSQL (new_PostgreSQLConnection 1 (JString (js ''postgresql://db/x''))))
          (js ''SELECT 1'') (request_state fresh_store)) =
     Inl (Error (js ''Query execution failed (7ms): Unknown error'')) \<and>
   \<not> str_includes (js ''Query execution failed (7ms): Unknown error'') (js ''boom'')"
proof -
  let ?e = "stub_env [] boom_backend"
  let ?st = "request_state fresh_store"
  let ?p = "new_PostgreSQLConnection 1 (JString (js ''postgresql://db/x''))"
  have n: "numberToString 7 = js ''7''"
    by (simp add: numberToString_def natToString.simps js_def)
  have t: "dateNow ?e (Suc (clockReads ?st)) - dateNow ?e (clockReads ?st) = 7"
    by (simp add: stub_env_def request_state_def)
  have a: "pg_query ?e (pg_connectionString ?p) (js ''SELECT 1'') =
             Inl (NonError (JString (js ''boom'')))"
    by (simp add: stub_env_def boom_backend_def)
  have m: "executionError 7 (NonError (JString (js ''boom''))) =
             Error (js ''Query execution failed (7ms): Unknown error'')"
    by (simp add: executionError_def n js_def)
  have r: "fst (executeQuery ?e (PostgreSQL ?p) (js ''SELECT 1'') ?st) =
             Inl (Error (js ''Query execution failed (7ms): Unknown error''))"
    using PostgreSQL_executeQuery_fails [OF a, of ?st] by (simp only: t m) simp
  have "of_char CHR ''b'' \<notin> set (js ''Query execution failed (7ms): Unknown error'')"
    by (simp add: js_def)
  moreover have "of_char CHR ''b'' \<in> set (js ''boom'')"
    by (simp add: js_def)
  ultimately have "\<not> sublist (js ''boom'') (js ''Query execution failed (7ms): Unknown error'')"
    using set_mono_sublist by blast
  then have i: "\<not> str_includes (js ''Query execution failed (7ms): Unknown error'') (js ''boom'')"
    by (simp only: str_includes_sublist) simp
  have a': "pg_query ?e (JString (js ''postgresql://db/x'')) (js ''SELECT 1'') =
             Inl (NonError (JString (js ''boom'')))"
    by (simp add: stub_env_def boom_backend_def)
  show ?thesis
    using a' r i by blast
qed

section \<open>Properties of the routes\<close>

lemma log_storage: "storage (log ev st) = storage st"
  by (simp add: log_def)

lemma tick_storage: "tick e st = (t, st1) \<Longrightarrow> storage st1 = storage st"
  by (auto simp: tick_def)











text \<open>
  C5 (as amended). When no configuration is active, every execute request is answered
  with a 400 and leaves the whole state of the request as it was: nothing is written to the
  history and the generator is not called. For a request whose \<open>query\<close> is a string of
  1 to 500 code units the message is the one about the missing configuration; for every
  other request the message is \<open>Invalid request data\<close>, with the issue of the validation:
  \<open>invalid_type\<close> without a string \<open>query\<close>, \<open>too_small\<close> for the empty string and
  \<open>too_big\<close> above 500 code units.
\<close>

theorem no_active_configuration_is_rejected:
  "getActiveDatabaseConfig (storage st) = None \<longrightarrow>
     statusCode (fst (executeRoute e reqQuery st)) = 400 \<and>
     queryHistory (storage (snd (executeRoute e reqQuery st))) = queryHistory (storage st) \<and>
     generatorCalls (events (snd (executeRoute e reqQuery st))) = generatorCalls (events st) \<and>
     snd (executeRoute e reqQuery st) = st \<and>
     (1 \<le> length q \<and> length q \<le> 500 \<longrightarrow>
        fst (executeRoute e (Some q) st) =
          \<lparr> statusCode = 400,
            body = Message (js ''No active database configuration found. Please configure a database connection first.'') \<rparr>) \<and>
     (\<not> (\<exists>q. reqQuery = Some q \<and> 1 \<le> length q \<and> length q \<le> 500) \<longrightarrow>
        (\<exists>issue. fst (executeRoute e reqQuery st) =
          \<lparr> statusCode = 400,
            body = MessageErrors (js ''Invalid request data'') issue \<rparr>)) \<and>
     fst (executeRoute e reqQuery st) =
       (case reqQuery of
          None \<Rightarrow>
            \<lparr> statusCode = 400,
              body = MessageErrors (js ''Invalid request data'') (js ''invalid_type'') \<rparr>
        | Some q \<Rightarrow>
            if length q < 1
            then \<lparr> statusCode = 400,
                   body = MessageErrors (js ''Invalid request data'') (js ''too_small'') \<rparr>
            else if 500 < length q
            then \<lparr> statusCode = 400,
                   body = MessageErrors (js ''Invalid request data'') (js ''too_big'') \<rparr>
            else \<lparr> statusCode = 400,
                   body = Message (js ''No active database configuration found. Please configure a database connection first.'') \<rparr>)"
proof
  assume a: "getActiveDatabaseConfig (storage st) = None"
  have valid: "executeRoute e (Some t) st =
      (\<lparr> statusCode = 400,
         body = Message (js ''No active database configuration found. Please configure a database connection first.'') \<rparr>,
       st)" if "1 \<le> length t" "length t \<le> 500" for t
    using a that by (cases t) (simp_all add: executeRoute_def naturalLanguageQuerySchema_parse_def)
  have missing: "executeRoute e None st =
      (\<lparr> statusCode = 400,
         body = MessageErrors (js ''Invalid request data'') (js ''invalid_type'') \<rparr>, st)"
    by (simp add: executeRoute_def naturalLanguageQuerySchema_parse_def routeCatch_def)
  have small: "executeRoute e (Some t) st =
      (\<lparr> statusCode = 400,
         body = MessageErrors (js ''Invalid request data'') (js ''too_small'') \<rparr>, st)"
    if "length t < 1" for t
    using that by (simp add: executeRoute_def naturalLanguageQuerySchema_parse_def routeCatch_def)
  have big: "executeRoute e (Some t) st =
      (\<lparr> statusCode = 400,
         body = MessageErrors (js ''Invalid request data'') (js ''too_big'') \<rparr>, st)"
    if "500 < length t" for t
    using that
    by (cases t) (simp_all add: executeRoute_def naturalLanguageQuerySchema_parse_def routeCatch_def)
  show "statusCode (fst (executeRoute e reqQuery st)) = 400 \<and>
     queryHistory (storage (snd (executeRoute e reqQuery st))) = queryHistory (storage st) \<and>
     generatorCalls (events (snd (executeRoute e reqQuery st))) = generatorCalls (events st) \<and>
     snd (executeRoute e reqQuery st) = st \<and>
     (1 \<le> length q \<and> length q \<le> 500 \<longrightarrow>
        fst (executeRoute e (Some q) st) =
          \<lparr> statusCode = 400,
            body = Message (js ''No active database configuration found. Please configure a database connection first.'') \<rparr>) \<and>
     (\<not> (\<exists>q. reqQuery = Some q \<and> 1 \<le> length q \<and> length q \<le> 500) \<longrightarrow>
        (\<exists>issue. fst (executeRoute e reqQuery st) =
          \<lparr> statusCode = 400,
            body = MessageErrors (js ''Invalid request data'') issue \<rparr>)) \<and>
     fst (executeRoute e reqQuery st) =
       (case reqQuery of
          None \<Rightarrow>
            \<lparr> statusCode = 400,
              body = MessageErrors (js ''Invalid request data'') (js ''invalid_type'') \<rparr>
        | Some q \<Rightarrow>
            if length q < 1
            then \<lparr> statusCode = 400,
                   body = MessageErrors (js ''Invalid request data'') (js ''too_small'') \<rparr>
            else if 500 < length q
            then \<lparr> statusCode = 400,
                   body = MessageErrors (js ''Invalid request data'') (js ''too_big'') \<rparr>
            else \<lparr> statusCode = 400,
                   body = Message (js ''No active database configuration found. Please configure a database connection first.'') \<rparr>)"
  proof (cases reqQuery)
    case None
    then show ?thesis
      using missing valid [of q] by simp
  next
    case (Some t)
    consider "length t < 1" | "500 < length t" | "1 \<le> length t" "length t \<le> 500"
      by linarith
    then show ?thesis
    proof cases
      case 1
      then show ?thesis
        using Some small [of t] valid [of q] by auto
    next
      case 2
      then show ?thesis
        using Some big [of t] valid [of q] by auto
    next
      case 3
      then show ?thesis
        using Some valid [of t] valid [of q] by auto
    qed
  qed
qed

theorem no_active_configuration_is_rejected_witness:
  "getActiveDatabaseConfig (storage (request_state inactive_store)) = None \<and>
   1 \<le> length (js ''Show all rows'') \<and> length (js ''Show all rows'') \<le> 500 \<and>
   executeRoute (stub_env (js ''SELECT 1'') three_rows) (Some (js ''Show all rows''))
       (request_state inactive_store) =
     (\<lparr> statusCode = 400,
        body = Message (js ''No active database configuration found. Please configure a database connection first.'') \<rparr>,
      request_state inactive_store) \<and>
   executeRoute (stub_env (js ''SELECT 1'') three_rows) None (request_state inactive_store) =
     (\<lparr> statusCode = 400,
        body = MessageErrors (js ''Invalid request data'') (js ''invalid_type'') \<rparr>,
      request_state inactive_store)"
proof -
  have a: "getActiveDatabaseConfig (storage (request_state inactive_store)) = None"
    by (simp add: request_state_def inactive_store_def fresh_store_def new_MemStorage_def
        updateDatabaseConfig_def Map_get_def getActiveDatabaseConfig_def Map_values_def Let_def)
  have l: "length (js ''Show all rows'') = 13"
    by (simp add: js_def)
  show ?thesis
    using a l
      no_active_configuration_is_rejected
        [of "request_state inactive_store" "stub_env (js ''SELECT 1'') three_rows"
            "Some (js ''Show all rows'')" "js ''Show all rows''"]
      no_active_configuration_is_rejected
        [of "request_state inactive_store" "stub_env (js ''SELECT 1'') three_rows"
            None "js ''Show all rows''"]
    by (simp add: prod_eq_iff)
qed

text \<open>
  C5 as stated fails for a request that does not pass the validation of its shape: with
  no active configuration and an empty \<open>query\<close> the 400 carries \<open>Invalid request data\<close>.
\<close>

theorem malformed_request_counterexample:
  "getActiveDatabaseConfig (storage (request_state inactive_store)) = None \<and>
   fst (executeRoute (stub_env (js ''SELECT 1'') three_rows) (Some [])
          (request_state inactive_store)) =
     \<lparr> statusCode = 400,
       body = MessageErrors (js ''Invalid request data'') (js ''too_small'') \<rparr> \<and>
   body (fst (executeRoute (stub_env (js ''SELECT 1'') three_rows) (Some [])
          (request_state inactive_store))) \<noteq>
     Message (js ''No active database configuration found. Please configure a database connection first.'')"
proof -
  have a: "getActiveDatabaseConfig (storage (request_state inactive_store)) = None"
    by (simp add: request_state_def inactive_store_def fresh_store_def new_MemStorage_def
        updateDatabaseConfig_def Map_get_def getActiveDatabaseConfig_def Map_values_def Let_def)
  have b: "fst (executeRoute (stub_env (js ''SELECT 1'') three_rows) (Some [])
          (request_state inactive_store)) =
     \<lparr> statusCode = 400,
       body = MessageErrors (js ''Invalid request data'') (js ''too_small'') \<rparr>"
    by (simp add: executeRoute_def naturalLanguageQuerySchema_parse_def routeCatch_def)
  show ?thesis
    using a by (simp add: b)
qed

subsection \<open>The execute route on a PostgreSQL configuration\<close>

lemma createConnection_postgresql:
  "toLowerCase r t = js ''postgresql'' \<Longrightarrow>
   createConnection r (JString t) cs h = Inr (PostgreSQL (new_PostgreSQLConnection h cs))"
  by (simp add: createConnection_def js_def)

lemma openConnection_postgresql:
  "toLowerCase (rt e) t = js ''postgresql'' \<Longrightarrow>
   openConnection e (JString t) cs st =
     (Inr (PostgreSQL (new_PostgreSQLConnection (Suc (handles st)) cs)),
      st\<lparr> handles := Suc (handles st),
          events := events st @ [CreateConnection (Suc (handles st))] \<rparr>)"
  by (simp add: openConnection_def createConnection_postgresql log_def)

lemma fetchSchema_postgresql_ok:
  assumes "toLowerCase (rt e) (cfg_type d) = js ''postgresql''"
    and "pg_query e (JString (cfg_connectionString d)) (schemaQuery (cfg_type d)) = Inr res"
  shows "fetchSchema e d st =
     ((case pg_rows res of None \<Rightarrow> [] | Some r \<Rightarrow> if r = [] then [] else formatSchema r),
      st\<lparr> clockReads := Suc (Suc (clockReads st)),
          handles := Suc (handles st),
          events := events st @
            [CreateConnection (Suc (handles st)),
             ExecuteQuery (Suc (handles st)) (schemaQuery (cfg_type d)),
             PoolQuery (Suc (handles st)) (schemaQuery (cfg_type d)),
             Close (Suc (handles st))] \<rparr>)"
  using assms
  by (simp add: fetchSchema_def openConnection_postgresql PostgreSQL_executeQuery_succeeds
      new_PostgreSQLConnection_def PostgreSQL_getPool_def log_def Let_def
      split: option.splits)

lemma fetchSchema_postgresql_fail:
  assumes "toLowerCase (rt e) (cfg_type d) = js ''postgresql''"
    and "pg_query e (JString (cfg_connectionString d)) (schemaQuery (cfg_type d)) = Inl err"
  shows "fetchSchema e d st =
     ([],
      st\<lparr> clockReads := Suc (Suc (clockReads st)),
          handles := Suc (handles st),
          events := events st @
            [CreateConnection (Suc (handles st)),
             ExecuteQuery (Suc (handles st)) (schemaQuery (cfg_type d)),
             PoolQuery (Suc (handles st)) (schemaQuery (cfg_type d))] \<rparr>)"
  using assms
  by (simp add: fetchSchema_def openConnection_postgresql PostgreSQL_executeQuery_fails
      new_PostgreSQLConnection_def PostgreSQL_getPool_def log_def Let_def)

lemma runGeneratedSql_postgresql_ok:
  assumes "toLowerCase (rt e) (cfg_type d) = js ''postgresql''"
    and "pg_query e (JString (cfg_connectionString d)) (sql r) = Inr res"
  shows "runGeneratedSql e d q r t0 st =
     (\<lparr> statusCode = 200,
        body = Execution
          \<lparr> res_naturalQuery = q,
            res_generatedSql = sql r,
            res_results = (case pg_rows res of None \<Rightarrow> [] | Some rs \<Rightarrow> rs),
            res_executionTime = dateNow e (Suc (clockReads st)) - dateNow e (clockReads st),
            res_rowCount = length (case pg_rows res of None \<Rightarrow> [] | Some rs \<Rightarrow> rs),
            res_status = js ''success'' \<rparr> \<rparr>,
      st\<lparr> storage :=
            snd (createQueryHistoryEntry (storage st)
              \<lparr> ins_naturalQuery = q,
                ins_generatedSql = sql r,
                ins_executionTime =
                  Some (dateNow e (Suc (clockReads st)) - dateNow e (clockReads st)),
                ins_rowCount = Some (length (case pg_rows res of None \<Rightarrow> [] | Some rs \<Rightarrow> rs)),
                ins_status = js ''success'',
                ins_errorMessage = None,
                ins_results = Some (case pg_rows res of None \<Rightarrow> [] | Some rs \<Rightarrow> rs) \<rparr>
              (dateNow e (Suc (Suc (clockReads st))))),
          clockReads := Suc (Suc (Suc (clockReads st))),
          handles := Suc (handles st),
          events := events st @
            [CreateConnection (Suc (handles st)),
             ExecuteQuery (Suc (handles st)) (sql r),
             PoolQuery (Suc (handles st)) (sql r),
             Close (Suc (handles st))] \<rparr>)"
  using assms
  by (simp add: runGeneratedSql_def openConnection_postgresql PostgreSQL_executeQuery_succeeds
      new_PostgreSQLConnection_def PostgreSQL_getPool_def log_def tick_def Let_def
      saveHistoryEntry_def)

lemma runGeneratedSql_postgresql_fail:
  assumes "toLowerCase (rt e) (cfg_type d) = js ''postgresql''"
    and "pg_query e (JString (cfg_connectionString d)) (sql r) = Inl err"
  shows "runGeneratedSql e d q r t0 st =
     (\<lparr> statusCode = 500,
        body = MessageGeneratedSql
          (js ''Database query failed: '' @
           js ''Query execution failed ('' @
           numberToString (dateNow e (Suc (clockReads st)) - dateNow e (clockReads st)) @
           js ''ms): '' @ messageOr err (js ''Unknown error''))
          (sql r) \<rparr>,
      st\<lparr> storage :=
            snd (createQueryHistoryEntry (storage st)
              \<lparr> ins_naturalQuery = q,
                ins_generatedSql = sql r,
                ins_executionTime = Some (dateNow e (Suc (Suc (clockReads st))) - t0),
                ins_rowCount = Some 0,
                ins_status = js ''error'',
                ins_errorMessage =
                  Some (js ''Query execution failed ('' @
                    numberToString (dateNow e (Suc (clockReads st)) - dateNow e (clockReads st)) @
                    js ''ms): '' @ messageOr err (js ''Unknown error'')),
                ins_results = None \<rparr>
              (dateNow e (Suc (Suc (Suc (clockReads st)))))),
          clockReads := Suc (Suc (Suc (Suc (clockReads st)))),
          handles := Suc (handles st),
          events := events st @
            [CreateConnection (Suc (handles st)),
             ExecuteQuery (Suc (handles st)) (sql r),
             PoolQuery (Suc (handles st)) (sql r)] \<rparr>)"
  using assms
  by (simp add: runGeneratedSql_def openConnection_postgresql PostgreSQL_executeQuery_fails
      new_PostgreSQLConnection_def PostgreSQL_getPool_def log_def tick_def Let_def
      saveHistoryEntry_def catchDbError_def executionError_def)

lemma executeRoute_generated:
  assumes "naturalLanguageQuerySchema_parse rq = Inr q"
    and "getActiveDatabaseConfig (storage st) = Some d"
    and "fetchSchema e d (st\<lparr> clockReads := Suc (clockReads st) \<rparr>) = (schema, st2)"
    and "generateSQLFromNaturalLanguage e q (cfg_type d) schema = Inr r"
  shows "executeRoute e rq st =
     runGeneratedSql e d q r (dateNow e (clockReads st))
       (st2\<lparr> events := events st2 @ [Generate q (cfg_type d) schema] \<rparr>)"
  using assms
  by (simp add: executeRoute_def not_object_def tick_def log_def Let_def)

lemma routeCatch_not_400_message:
  "routeCatch err \<noteq> \<lparr> statusCode = 400, body = Message m \<rparr>"
  by (cases err) (simp_all add: routeCatch_def)

lemma catchDbError_status: "statusCode (fst (catchDbError e q r t0 err st)) = 500"
  by (simp add: catchDbError_def Let_def split_def)

lemma runGeneratedSql_status:
  "statusCode (fst (runGeneratedSql e d q r t0 st)) = 200 \<or>
   statusCode (fst (runGeneratedSql e d q r t0 st)) = 500"
  by (simp add: runGeneratedSql_def catchDbError_status Let_def split_def
      split: prod.splits sum.splits)

lemma executeRoute_with_active_config:
  assumes "getActiveDatabaseConfig (storage st) = Some d"
  shows "fst (executeRoute e rq st) \<noteq> \<lparr> statusCode = 400, body = Message m \<rparr>"
proof (cases "naturalLanguageQuerySchema_parse rq")
  case (Inl err)
  then show ?thesis
    by (simp add: executeRoute_def routeCatch_not_400_message)
next
  case (Inr q)
  obtain t st1 where t: "tick e st = (t, st1)" by (cases "tick e st")
  obtain schema st2 where f: "fetchSchema e d st1 = (schema, st2)"
    by (cases "fetchSchema e d st1")
  show ?thesis
  proof (cases "generateSQLFromNaturalLanguage e q (cfg_type d) schema")
    case (Inl err)
    with Inr assms t f show ?thesis
      by (simp add: executeRoute_def routeCatch_not_400_message)
  next
    case gen: (Inr r)
    have "statusCode (fst (runGeneratedSql e d q r t (log (Generate q (cfg_type d) schema) st2)))
            \<noteq> 400"
      using runGeneratedSql_status [of e d q r t "log (Generate q (cfg_type d) schema) st2"]
      by auto
    then have "fst (runGeneratedSql e d q r t (log (Generate q (cfg_type d) schema) st2))
            \<noteq> \<lparr> statusCode = 400, body = Message m \<rparr>"
      by auto
    with Inr assms t f gen show ?thesis
      by (simp add: executeRoute_def not_object_def)
  qed
qed

lemma executed_append: "executed (xs @ ys) = executed xs @ executed ys"
  by (induction xs rule: executed.induct) simp_all

lemma sentToDriver_append: "sentToDriver (xs @ ys) = sentToDriver xs @ sentToDriver ys"
  by (induction xs rule: sentToDriver.induct) simp_all

lemma constructed_append: "constructed (xs @ ys) = constructed xs @ constructed ys"
  by (induction xs rule: constructed.induct) simp_all

lemma closed_append: "closed (xs @ ys) = closed xs @ closed ys"
  by (induction xs rule: closed.induct) simp_all

lemma executeRoute_postgresql_events:
  assumes parse: "naturalLanguageQuerySchema_parse rq = Inr q"
    and active: "getActiveDatabaseConfig (storage st) = Some d"
    and pg: "toLowerCase (rt e) (cfg_type d) = js ''postgresql''"
    and gen: "\<And>schema. generateSQLFromNaturalLanguage e q (cfg_type d) schema = Inr r"
  shows "executed (events (snd (executeRoute e rq st))) =
           executed (events st) @
           [(Suc (handles st), schemaQuery (cfg_type d)), (Suc (Suc (handles st)), sql r)]"
    and "sentToDriver (events (snd (executeRoute e rq st))) =
           sentToDriver (events st) @ [schemaQuery (cfg_type d), sql r]"
    and "constructed (events (snd (executeRoute e rq st))) =
           constructed (events st) @ [Suc (handles st), Suc (Suc (handles st))]"
    and "closed (events (snd (executeRoute e rq st))) =
           closed (events st) @
           (case pg_query e (JString (cfg_connectionString d)) (schemaQuery (cfg_type d)) of
              Inl err \<Rightarrow> [] | Inr res \<Rightarrow> [Suc (handles st)]) @
           (case pg_query e (JString (cfg_connectionString d)) (sql r) of
              Inl err \<Rightarrow> [] | Inr res \<Rightarrow> [Suc (Suc (handles st))])"
proof -
  let ?st1 = "st\<lparr> clockReads := Suc (clockReads st) \<rparr>"
  obtain schema st2 where f: "fetchSchema e d ?st1 = (schema, st2)"
    by (cases "fetchSchema e d ?st1")
  have run: "executeRoute e rq st =
     runGeneratedSql e d q r (dateNow e (clockReads st))
       (st2\<lparr> events := events st2 @ [Generate q (cfg_type d) schema] \<rparr>)"
    using parse active f gen by (rule executeRoute_generated)
  let ?all = "executed (events (snd (executeRoute e rq st))) =
           executed (events st) @
           [(Suc (handles st), schemaQuery (cfg_type d)), (Suc (Suc (handles st)), sql r)] \<and>
     sentToDriver (events (snd (executeRoute e rq st))) =
           sentToDriver (events st) @ [schemaQuery (cfg_type d), sql r] \<and>
     constructed (events (snd (executeRoute e rq st))) =
           constructed (events st) @ [Suc (handles st), Suc (Suc (handles st))] \<and>
     closed (events (snd (executeRoute e rq st))) =
           closed (events st) @
           (case pg_query e (JString (cfg_connectionString d)) (schemaQuery (cfg_type d)) of
              Inl err \<Rightarrow> [] | Inr res \<Rightarrow> [Suc (handles st)]) @
           (case pg_query e (JString (cfg_connectionString d)) (sql r) of
              Inl err \<Rightarrow> [] | Inr res \<Rightarrow> [Suc (Suc (handles st))])"
  have ?all
  proof (cases "pg_query e (JString (cfg_connectionString d)) (schemaQuery (cfg_type d))")
    case s: (Inl serr)
    note fs = fetchSchema_postgresql_fail [OF pg s, of ?st1]
    show ?thesis
    proof (cases "pg_query e (JString (cfg_connectionString d)) (sql r)")
      case x: (Inl xerr)
      show ?thesis
        using f fs s x
        by (auto simp add: run runGeneratedSql_postgresql_fail [OF pg x]
            executed_append sentToDriver_append constructed_append closed_append)
    next
      case x: (Inr xres)
      show ?thesis
        using f fs s x
        by (auto simp add: run runGeneratedSql_postgresql_ok [OF pg x]
            executed_append sentToDriver_append constructed_append closed_append)
    qed
  next
    case s: (Inr sres)
    note fs = fetchSchema_postgresql_ok [OF pg s, of ?st1]
    show ?thesis
    proof (cases "pg_query e (JString (cfg_connectionString d)) (sql r)")
      case x: (Inl xerr)
      show ?thesis
        using f fs s x
        by (auto simp add: run runGeneratedSql_postgresql_fail [OF pg x]
            executed_append sentToDriver_append constructed_append closed_append)
    next
      case x: (Inr xres)
      show ?thesis
        using f fs s x
        by (auto simp add: run runGeneratedSql_postgresql_ok [OF pg x]
            executed_append sentToDriver_append constructed_append closed_append)
    qed
  qed
  then show "executed (events (snd (executeRoute e rq st))) =
           executed (events st) @
           [(Suc (handles st), schemaQuery (cfg_type d)), (Suc (Suc (handles st)), sql r)]"
    and "sentToDriver (events (snd (executeRoute e rq st))) =
           sentToDriver (events st) @ [schemaQuery (cfg_type d), sql r]"
    and "constructed (events (snd (executeRoute e rq st))) =
           constructed (events st) @ [Suc (handles st), Suc (Suc (handles st))]"
    and "closed (events (snd (executeRoute e rq st))) =
           closed (events st) @
           (case pg_query e (JString (cfg_connectionString d)) (schemaQuery (cfg_type d)) of
              Inl err \<Rightarrow> [] | Inr res \<Rightarrow> [Suc (handles st)]) @
           (case pg_query e (JString (cfg_connectionString d)) (sql r) of
              Inl err \<Rightarrow> [] | Inr res \<Rightarrow> [Suc (Suc (handles st))])"
    by simp_all
qed

lemma executeRoute_postgresql_status:
  assumes parse: "naturalLanguageQuerySchema_parse rq = Inr q"
    and active: "getActiveDatabaseConfig (storage st) = Some d"
    and pg: "toLowerCase (rt e) (cfg_type d) = js ''postgresql''"
    and gen: "\<And>schema. generateSQLFromNaturalLanguage e q (cfg_type d) schema = Inr r"
  shows "statusCode (fst (executeRoute e rq st)) =
           (case pg_query e (JString (cfg_connectionString d)) (sql r) of
              Inl err \<Rightarrow> 500 | Inr res \<Rightarrow> 200)"
proof -
  let ?st1 = "st\<lparr> clockReads := Suc (clockReads st) \<rparr>"
  obtain schema st2 where f: "fetchSchema e d ?st1 = (schema, st2)"
    by (cases "fetchSchema e d ?st1")
  have run: "executeRoute e rq st =
     runGeneratedSql e d q r (dateNow e (clockReads st))
       (st2\<lparr> events := events st2 @ [Generate q (cfg_type d) schema] \<rparr>)"
    using parse active f gen by (rule executeRoute_generated)
  show ?thesis
  proof (cases "pg_query e (JString (cfg_connectionString d)) (sql r)")
    case x: (Inl xerr)
    then show ?thesis
      by (simp add: run runGeneratedSql_postgresql_fail [OF pg x])
  next
    case x: (Inr xres)
    then show ?thesis
      by (simp add: run runGeneratedSql_postgresql_ok [OF pg x])
  qed
qed

lemma stub_parse:
  "naturalLanguageQuerySchema_parse (Some (js ''Show all rows'')) = Inr (js ''Show all rows'')"
  by (simp add: naturalLanguageQuerySchema_parse_def js_def)

lemma fresh_active_config:
  "getActiveDatabaseConfig (storage (request_state fresh_store)) =
     Some \<lparr> cfg_id = 1, cfg_name = js ''Default PostgreSQL'', cfg_type = js ''postgresql'',
            cfg_connectionString = js ''postgresql://localhost:5432/sample'',
            cfg_isActive = Some True, cfg_createdAt = 0 \<rparr>"
  by (simp add: request_state_def fresh_store_def getActiveDatabaseConfig_def
      new_MemStorage_def Map_values_def)

lemma stub_lower:
  "toLowerCase (rt (stub_env g b)) (js ''postgresql'') = js ''postgresql''"
  by (simp add: stub_env_def ascii_runtime_def asciiLower_def js_def)

lemma stub_gen:
  "generateSQLFromNaturalLanguage (stub_env g b) q t schema = Inr \<lparr> sql = g, explanation = [] \<rparr>"
  by (simp add: stub_env_def)

lemma stub_pg: "pg_query (stub_env g b) c q = b q"
  by (simp add: stub_env_def)

lemma select_is_not_schemaQuery: "js ''SELECT * FROM t'' \<noteq> schemaQuery (js ''postgresql'')"
  by (simp add: schemaQuery_def js_def)

text \<open>No request is ever answered with the rejection of the generated SQL: the branch
  of the route that would send it is dead.\<close>

lemma executeRoute_never_rejects_generated_sql:
  "fst (executeRoute e rq st) \<noteq>
     \<lparr> statusCode = 400,
       body = Message (js ''Generated query failed security validation. Only SELECT statements are allowed.'') \<rparr>"
proof (cases "getActiveDatabaseConfig (storage st)")
  case (Some d)
  then show ?thesis by (rule executeRoute_with_active_config)
next
  case None
  show ?thesis
  proof (cases "naturalLanguageQuerySchema_parse rq")
    case (Inl err)
    then show ?thesis
      by (simp add: executeRoute_def routeCatch_not_400_message)
  next
    case (Inr q)
    with None show ?thesis
      by (simp add: executeRoute_def js_def)
  qed
qed

text \<open>
  C10. A fresh store holds the default PostgreSQL configuration under id 1, active, and
  \<open>getActiveDatabaseConfig\<close> returns it. As long as the configurations are those of a
  fresh store, no execute request is answered with the 400 about a missing configuration.
\<close>

theorem fresh_store_has_active_default:
  "getActiveDatabaseConfig (new_MemStorage url now) =
     Some \<lparr> cfg_id = 1,
            cfg_name = js ''Default PostgreSQL'',
            cfg_type = js ''postgresql'',
            cfg_connectionString =
              (case url of
                 None \<Rightarrow> js ''postgresql://localhost:5432/sample''
               | Some u \<Rightarrow> if u = [] then js ''postgresql://localhost:5432/sample'' else u),
            cfg_isActive = Some True,
            cfg_createdAt = now \<rparr> \<and>
   (databaseConfigs (storage st) = databaseConfigs (new_MemStorage url now) \<longrightarrow>
      fst (executeRoute e reqQuery st) \<noteq>
        \<lparr> statusCode = 400,
          body = Message (js ''No active database configuration found. Please configure a database connection first.'') \<rparr>)"
proof -
  have a: "getActiveDatabaseConfig (new_MemStorage url now) =
     Some \<lparr> cfg_id = 1,
            cfg_name = js ''Default PostgreSQL'',
            cfg_type = js ''postgresql'',
            cfg_connectionString =
              (case url of
                 None \<Rightarrow> js ''postgresql://localhost:5432/sample''
               | Some u \<Rightarrow> if u = [] then js ''postgresql://localhost:5432/sample'' else u),
            cfg_isActive = Some True,
            cfg_createdAt = now \<rparr>"
    by (simp add: getActiveDatabaseConfig_def new_MemStorage_def Map_values_def)
  have "getActiveDatabaseConfig (storage st) = getActiveDatabaseConfig (new_MemStorage url now)"
    if "databaseConfigs (storage st) = databaseConfigs (new_MemStorage url now)"
    using that by (simp add: getActiveDatabaseConfig_def)
  with a show ?thesis
    using executeRoute_with_active_config [of st _ e reqQuery] by auto
qed

theorem fresh_store_has_active_default_witness:
  "databaseConfigs (storage (request_state logged_store)) = databaseConfigs (new_MemStorage None 0) \<and>
   cfg_id (the (getActiveDatabaseConfig (new_MemStorage None 0))) = 1 \<and>
   fst (executeRoute (stub_env (js ''SELECT 1'') three_rows) (Some (js ''Show all rows''))
          (request_state logged_store)) \<noteq>
     \<lparr> statusCode = 400,
       body = Message (js ''No active database configuration found. Please configure a database connection first.'') \<rparr>"
proof -
  have "databaseConfigs (storage (request_state logged_store)) =
          databaseConfigs (new_MemStorage None 0)"
    by (simp add: request_state_def logged_store_def fresh_store_def createQueryHistoryEntry_def
        Let_def)
  then show ?thesis
    using fresh_store_has_active_default
      [of None 0 "request_state logged_store" "stub_env (js ''SELECT 1'') three_rows"
          "Some (js ''Show all rows'')"]
    by simp
qed

text \<open>
  C1 fails in the code. The route tests \<open>!validateSQLQuery(sqlResult.sql)\<close> without
  \<open>await\<close>; the operand is a promise, so the rejection branch is never taken. With a
  generator that answers \<open>DROP TABLE t\<close>, which the validator itself rejects, the route
  calls \<open>executeQuery\<close> with that statement, the statement reaches the driver, the answer
  is a 200 and the history gains a success entry.
\<close>

theorem unsafe_sql_reaches_database:
  "validateSQLQuery ascii_runtime (JString (js ''DROP TABLE t'')) = Resolved False \<and>
   statusCode (fst drop_table_request) = 200 \<and>
   executed (events (snd drop_table_request)) =
     [(1, schemaQuery (js ''postgresql'')), (2, js ''DROP TABLE t'')] \<and>
   sentToDriver (events (snd drop_table_request)) =
     [schemaQuery (js ''postgresql''), js ''DROP TABLE t''] \<and>
   map (\<lambda>h. (qh_generatedSql h, qh_status h, qh_errorMessage h))
     (Map_values (queryHistory (storage (snd drop_table_request)))) =
     [(js ''DROP TABLE t'', js ''success'', None)]"
proof -
  let ?e = "stub_env (js ''DROP TABLE t'') three_rows"
  let ?r = "\<lparr> sql = js ''DROP TABLE t'', explanation = [] \<rparr>"
  let ?st = "request_state fresh_store"
  define d where "d = \<lparr> cfg_id = 1, cfg_name = js ''Default PostgreSQL'',
            cfg_type = js ''postgresql'',
            cfg_connectionString = js ''postgresql://localhost:5432/sample'',
            cfg_isActive = Some True, cfg_createdAt = 0 \<rparr>"
  have active: "getActiveDatabaseConfig (storage ?st) = Some d"
    unfolding d_def by (rule fresh_active_config)
  have ty: "cfg_type d = js ''postgresql''"
    by (simp add: d_def)
  have v: "validateSQLQuery ascii_runtime (JString (js ''DROP TABLE t'')) = Resolved False"
    by (simp add: validateSQLQuery_def validateSQLQuery_try_def js_def ascii_runtime_def
        asciiUpper_def trim_def isWhiteSpace_def)
  have pg: "toLowerCase (rt ?e) (cfg_type d) = js ''postgresql''"
    by (simp add: ty stub_lower)
  have gen: "\<And>schema. generateSQLFromNaturalLanguage ?e (js ''Show all rows'') (cfg_type d) schema
               = Inr ?r"
    by (simp add: stub_gen)
  have x: "pg_query ?e (JString (cfg_connectionString d)) (sql ?r) =
             Inr \<lparr> pg_rows = Some [[(js ''id'', JNumber 1)], [(js ''id'', JNumber 2)],
                                   [(js ''id'', JNumber 3)]],
                   pg_rowCount = Some 3 \<rparr>"
    by (simp add: stub_pg three_rows_def)
  have s: "statusCode (fst (executeRoute ?e (Some (js ''Show all rows'')) ?st)) = 200"
    using executeRoute_postgresql_status [OF stub_parse active pg gen] x
    by simp
  have ex: "executed (events (snd (executeRoute ?e (Some (js ''Show all rows'')) ?st))) =
     [(1, schemaQuery (js ''postgresql'')), (2, js ''DROP TABLE t'')]"
    using executeRoute_postgresql_events(1) [OF stub_parse active pg gen]
    by (simp add: request_state_def ty)
  have sd: "sentToDriver (events (snd (executeRoute ?e (Some (js ''Show all rows'')) ?st))) =
     [schemaQuery (js ''postgresql''), js ''DROP TABLE t'']"
    using executeRoute_postgresql_events(2) [OF stub_parse active pg gen]
    by (simp add: request_state_def ty)
  obtain schema st2 where f:
    "fetchSchema ?e d (?st\<lparr> clockReads := Suc (clockReads ?st) \<rparr>) = (schema, st2)"
    by (cases "fetchSchema ?e d (?st\<lparr> clockReads := Suc (clockReads ?st) \<rparr>)")
  have sx: "pg_query ?e (JString (cfg_connectionString d)) (schemaQuery (cfg_type d)) =
             Inr \<lparr> pg_rows = Some [[(js ''id'', JNumber 1)], [(js ''id'', JNumber 2)],
                                   [(js ''id'', JNumber 3)]],
                   pg_rowCount = Some 3 \<rparr>"
    by (simp add: stub_pg three_rows_def)
  have st2: "storage st2 = fresh_store"
    using f fetchSchema_postgresql_ok [OF pg sx, of "?st\<lparr> clockReads := Suc (clockReads ?st) \<rparr>"]
    by (auto simp: request_state_def)
  have run: "executeRoute ?e (Some (js ''Show all rows'')) ?st =
     runGeneratedSql ?e d (js ''Show all rows'') ?r (dateNow ?e (clockReads ?st))
       (st2\<lparr> events := events st2 @ [Generate (js ''Show all rows'') (cfg_type d) schema] \<rparr>)"
    using stub_parse active f gen by (rule executeRoute_generated)
  have q0: "queryHistory fresh_store = []"
    by (simp add: fresh_store_def new_MemStorage_def)
  have h: "map (\<lambda>h. (qh_generatedSql h, qh_status h, qh_errorMessage h))
     (Map_values (queryHistory (storage (snd (executeRoute ?e (Some (js ''Show all rows'')) ?st))))) =
     [(js ''DROP TABLE t'', js ''success'', None)]"
    by (simp add: run runGeneratedSql_postgresql_ok [OF pg x] st2 createQueryHistoryEntry_def
        Map_values_def q0 Let_def)
  show ?thesis
    using v s ex sd h by (simp add: drop_table_request_def)
qed

text \<open>
  C2 fails in the code. \<open>connection.close()\<close> is the last statement of each \<open>try\<close>
  block and there is no \<open>finally\<close>: when the generated statement fails, the connection of
  the execution is never closed; when the backend fails on every statement, neither
  connection is closed.
\<close>

theorem failed_query_leaves_connection_open:
  "statusCode (fst failing_query_request) = 500 \<and>
   constructed (events (snd failing_query_request)) = [1, 2] \<and>
   closed (events (snd failing_query_request)) = [1] \<and>
   statusCode (fst unreachable_backend_request) = 500 \<and>
   constructed (events (snd unreachable_backend_request)) = [1, 2] \<and>
   closed (events (snd unreachable_backend_request)) = []"
proof -
  let ?d = "\<lparr> cfg_id = 1, cfg_name = js ''Default PostgreSQL'', cfg_type = js ''postgresql'',
            cfg_connectionString = js ''postgresql://localhost:5432/sample'',
            cfg_isActive = Some True, cfg_createdAt = 0 \<rparr>"
  let ?r = "\<lparr> sql = js ''SELECT * FROM t'', explanation = [] \<rparr>"
  let ?st = "request_state fresh_store"
  let ?e1 = "stub_env (js ''SELECT * FROM t'') schema_only_backend"
  let ?e2 = "stub_env (js ''SELECT * FROM t'') unreachable_backend"
  have pg: "toLowerCase (rt (stub_env g b)) (cfg_type ?d) = js ''postgresql''" for g b
    by (simp add: stub_lower)
  have gen: "\<And>schema. generateSQLFromNaturalLanguage (stub_env (js ''SELECT * FROM t'') b)
               (js ''Show all rows'') (cfg_type ?d) schema = Inr ?r" for b
    by (simp add: stub_gen)
  have s1: "pg_query ?e1 (JString (cfg_connectionString ?d)) (schemaQuery (cfg_type ?d)) =
              Inr \<lparr> pg_rows = Some [], pg_rowCount = Some 0 \<rparr>"
    by (simp add: stub_pg schema_only_backend_def)
  have x1: "pg_query ?e1 (JString (cfg_connectionString ?d)) (sql ?r) =
              Inl (Error (js ''table t does not exist''))"
    using select_is_not_schemaQuery by (simp add: stub_pg schema_only_backend_def)
  have s2: "pg_query ?e2 (JString (cfg_connectionString ?d)) (schemaQuery (cfg_type ?d)) =
              Inl (Error (js ''connection refused''))"
    by (simp add: stub_pg unreachable_backend_def)
  have x2: "pg_query ?e2 (JString (cfg_connectionString ?d)) (sql ?r) =
              Inl (Error (js ''connection refused''))"
    by (simp add: stub_pg unreachable_backend_def)
  have a1: "statusCode (fst (executeRoute ?e1 (Some (js ''Show all rows'')) ?st)) = 500"
    using executeRoute_postgresql_status [OF stub_parse fresh_active_config pg gen, of schema_only_backend] x1
    by simp
  have b1: "constructed (events (snd (executeRoute ?e1 (Some (js ''Show all rows'')) ?st))) = [1, 2]"
    using executeRoute_postgresql_events(3) [OF stub_parse fresh_active_config pg gen, of schema_only_backend]
    by (simp add: request_state_def)
  have c1: "closed (events (snd (executeRoute ?e1 (Some (js ''Show all rows'')) ?st))) = [1]"
    using executeRoute_postgresql_events(4) [OF stub_parse fresh_active_config pg gen, of schema_only_backend]
      s1 x1
    by (simp add: request_state_def)
  have a2: "statusCode (fst (executeRoute ?e2 (Some (js ''Show all rows'')) ?st)) = 500"
    using executeRoute_postgresql_status [OF stub_parse fresh_active_config pg gen, of unreachable_backend] x2
    by simp
  have b2: "constructed (events (snd (executeRoute ?e2 (Some (js ''Show all rows'')) ?st))) = [1, 2]"
    using executeRoute_postgresql_events(3) [OF stub_parse fresh_active_config pg gen, of unreachable_backend]
    by (simp add: request_state_def)
  have c2: "closed (events (snd (executeRoute ?e2 (Some (js ''Show all rows'')) ?st))) = []"
    using executeRoute_postgresql_events(4) [OF stub_parse fresh_active_config pg gen, of unreachable_backend]
      s2 x2
    by (simp add: request_state_def)
  show ?thesis
    using a1 b1 c1 a2 b2 c2
    by (simp add: failing_query_request_def unreachable_backend_request_def)
qed

end
